theory Spec2Isabelle
  imports Complex_Main
begin

section \<open>Data model (types.ts)\<close>

text \<open>
  JavaScript numbers are modelled as exact rationals: the comparisons, \<open>Math.max\<close>,
  \<open>Math.min\<close> and the percentage arithmetic of the source are read over \<open>rat\<close>,
  without the rounding of IEEE doubles. Pixel dimensions of a decoded image are naturals.
  This idealises the crop arithmetic: the order of the tests, the comparisons and the
  composition of the formulas are those of the source, while the numeric value of a
  rounded result, and its underflow to zero, are not expressed in this model.
\<close>

text \<open>\<open>boundingBox: [number, number, number, number]\<close>, in the order ymin, xmin, ymax, xmax.\<close>

type_synonym box = "rat \<times> rat \<times> rat \<times> rat"

record SlideFigure =
  boundingBox :: box
  description :: string

datatype LayoutType = TITLE_ONLY | TITLE_AND_CONTENT | TWO_COLUMN | BLANK | SECTION_HEADER

record SlideContent =
  title :: string
  content :: "string list"
  layoutType :: LayoutType
  backgroundColor :: "string option"
  textColor :: "string option"
  slideNotes :: "string option"  \<comment> \<open>the field \<open>notes\<close> (a keyword of Isabelle)\<close>
  figures :: "SlideFigure list option"

datatype SlideStatus = Pending | Analyzing | Done | Error

record ProcessedSlide =
  originalImage :: string
  analysis :: "SlideContent option"
  status :: SlideStatus

datatype AppState = IDLE | PROCESSING_PDF | ANALYZING_SLIDES | GENERATING_PPT | COMPLETED | ERROR

datatype ConversionMode = AI_EXTRACT | IMAGE_ONLY

section \<open>The environment: browser, analyzer, rasterizer and file writer\<close>

text \<open>
  What \<open>new Image()\<close> does with a base64 string once \<open>img.src\<close> is set: \<open>onload\<close>
  fires within the 10 seconds of the timer (with the image's pixel width and height),
  \<open>onerror\<close> fires, or neither fires before the timer rejects.
\<close>

datatype image_load = Loaded nat nat | LoadFailed | LoadTimedOut

text \<open>
  What one call of the model behind \<open>ai.models.generateContent\<close> gives: the call throws,
  the response has no text, the text is not JSON, or it parses to a \<open>SlideContent\<close>.
\<close>

datatype gemini_outcome = CallFailed | NoText | Unparseable | Parsed SlideContent

datatype analysis_error =
    ApiKeyMissing    \<comment> \<open>"API Key is missing"\<close>
  | GeminiCallError  \<comment> \<open>the rejection of \<open>generateContent\<close>\<close>
  | ParseFailed      \<comment> \<open>"Failed to parse analysis results."\<close>
  | NoResponse       \<comment> \<open>"No response from Gemini."\<close>

datatype pdf_error = PdfUnreadable

record world =
  decode :: "string \<Rightarrow> image_load"
  canvas_ctx :: bool  \<comment> \<open>\<open>canvas.getContext('2d')\<close> is not null\<close>
  api_key :: bool  \<comment> \<open>\<open>process.env.API_KEY\<close> is set\<close>
  gemini :: "nat \<Rightarrow> string \<Rightarrow> gemini_outcome"  \<comment> \<open>outcome of the call for slide index i\<close>
  pdf_pages :: "pdf_error + string list"  \<comment> \<open>what \<open>convertPdfToImages(file)\<close> gives\<close>
  write_ok :: bool  \<comment> \<open>\<open>pptx.writeFile\<close> resolves\<close>

section \<open>Errors, draw operations and the state\<close>

datatype crop_error =
    InvalidBoundingBox box      \<comment> \<open>"Invalid bounding box: [...]"\<close>
  | DecodeTimeout               \<comment> \<open>"Image load timed out in cropImage"\<close>
  | NoCanvasContext             \<comment> \<open>"Could not get canvas context"\<close>
  | DegenerateCrop rat rat      \<comment> \<open>"Invalid calculated crop dimensions: WxH"\<close>
  | DecodeFailed                \<comment> \<open>"Failed to load image for cropping"\<close>

datatype batch_error =
    NoSlidesAnalyzed  \<comment> \<open>"No slides were successfully analyzed."\<close>
  | SinkWriteError    \<comment> \<open>the rejection of \<open>pptx.writeFile\<close>\<close>

text \<open>
  The result of \<open>canvas.toDataURL\<close>: the source image, the rectangle handed to
  \<open>drawImage\<close>, and the canvas size (\<open>canvas.width = safeW\<close> truncates to an integer).
\<close>

record sub_image =
  src :: string
  src_x :: rat
  src_y :: rat
  src_w :: rat
  src_h :: rat
  canvas_width :: nat
  canvas_height :: nat

text \<open>A length given as a number (inches) or as a percentage string.\<close>

datatype dim = Inches rat | Percent rat

datatype image_data = Original string | Cropped sub_image

record image_opts =
  img_data :: image_data
  img_x :: dim
  img_y :: dim
  img_w :: dim
  img_h :: dim

datatype text_body = Plain string | Runs "string list"  \<comment> \<open>runs with \<open>breakLine: true\<close>\<close>

record text_opts =
  txt_x :: dim
  txt_y :: dim
  txt_w :: dim
  txt_h :: dim
  fontSize :: nat
  bold :: bool
  color :: string
  align :: "string option"
  bullet :: bool
  valign :: "string option"

text \<open>The calls on the PptxGenJS object and its slides, in the order they are made.\<close>

datatype sink_op =
    NewPresentation string  \<comment> \<open>\<open>new PptxGenJS()\<close> and its metadata (the title)\<close>
  | AddSlide
  | SetBackground string
  | AddText text_body text_opts
  | AddImage image_opts
  | AddNotes string
  | WriteFile string  \<comment> \<open>the file name without its time stamp\<close>

datatype log_entry =
    WarnInvalidBox box  \<comment> \<open>\<open>console.warn("Skipping invalid figure bounding box:", ...)\<close>\<close>
  | ErrorFigure crop_error  \<comment> \<open>\<open>console.error("Failed to add figure to slide:", err)\<close>\<close>
  | ErrorParseResponse  \<comment> \<open>\<open>console.error("Failed to parse Gemini response", e)\<close>\<close>
  | ErrorAnalyzing nat analysis_error  \<comment> \<open>\<open>console.error(`Error analyzing slide ${i+1}`, err)\<close>\<close>
  | ErrorGenerate batch_error  \<comment> \<open>\<open>console.error(err)\<close> of the generation handlers\<close>
  | ErrorPdf pdf_error  \<comment> \<open>\<open>console.error(err)\<close> of \<open>handleFileAccepted\<close>\<close>

text \<open>
  The React state of \<open>App\<close> together with the traces of effects. \<open>crop_calls\<close> is a
  history variable: the boxes of all calls of \<open>cropImage\<close>, in order.
\<close>

record state =
  appState :: AppState
  slides :: "ProcessedSlide list"
  progress_current :: nat
  progress_total :: nat
  error :: "string option"
  sink :: "sink_op list"
  console :: "log_entry list"
  image_loads :: "string list"
  crop_calls :: "box list"

section \<open>cropImage (pptBuilder)\<close>

text \<open>The body of \<open>img.onload\<close>, from the image's width and height on.\<close>

definition crop_onload :: "world \<Rightarrow> string \<Rightarrow> box \<Rightarrow> nat \<Rightarrow> nat \<Rightarrow> crop_error + sub_image" where
  "crop_onload env base64Image b width height =
     (case b of (ymin, xmin, ymax, xmax) \<Rightarrow>
        if \<not> canvas_ctx env then Inl NoCanvasContext
        else
          let cropX = (xmin / 100) * of_nat width;
              cropY = (ymin / 100) * of_nat height;
              cropW = ((xmax - xmin) / 100) * of_nat width;
              cropH = ((ymax - ymin) / 100) * of_nat height;
              safeX = max 0 cropX;
              safeY = max 0 cropY;
              safeW = min (of_nat width - safeX) cropW;
              safeH = min (of_nat height - safeY) cropH
          in if safeW \<le> 0 \<or> safeH \<le> 0 then Inl (DegenerateCrop safeW safeH)
             else Inr \<lparr>src = base64Image, src_x = safeX, src_y = safeY,
                       src_w = safeW, src_h = safeH,
                       canvas_width = nat \<lfloor>safeW\<rfloor>, canvas_height = nat \<lfloor>safeH\<rfloor>\<rparr>)"

definition cropImage :: "world \<Rightarrow> string \<Rightarrow> box \<Rightarrow> state \<Rightarrow> (crop_error + sub_image) \<times> state" where
  "cropImage env base64Image b st =
     (case b of (ymin, xmin, ymax, xmax) \<Rightarrow>
        if xmax \<le> xmin \<or> ymax \<le> ymin then (Inl (InvalidBoundingBox b), st)
        else
          (case decode env base64Image of
             LoadTimedOut \<Rightarrow> Inl DecodeTimeout
           | LoadFailed \<Rightarrow> Inl DecodeFailed
           | Loaded width height \<Rightarrow> crop_onload env base64Image b width height,
           st\<lparr>image_loads := image_loads st @ [base64Image]\<rparr>))"

section \<open>generateImagePptx and generatePptx (pptBuilder)\<close>

definition emit :: "sink_op \<Rightarrow> state \<Rightarrow> state" where
  "emit op st = st\<lparr>sink := sink st @ [op]\<rparr>"

definition log_console :: "log_entry \<Rightarrow> state \<Rightarrow> state" where
  "log_console e st = st\<lparr>console := console st @ [e]\<rparr>"

text \<open>\<open>s.replace('#', '')\<close>: a string pattern replaces the first occurrence only.\<close>

fun replace_hash :: "string \<Rightarrow> string" where
  "replace_hash [] = []"
| "replace_hash (c # cs) = (if c = CHR ''#'' then cs else c # replace_hash cs)"

text \<open>\<open>content.join('\n')\<close>\<close>

fun join_nl :: "string list \<Rightarrow> string" where
  "join_nl [] = []"
| "join_nl [t] = t"
| "join_nl (t # ts) = t @ CHR 0x0A # join_nl ts"

fun imageSlides :: "ProcessedSlide list \<Rightarrow> state \<Rightarrow> state" where
  "imageSlides [] st = st"
| "imageSlides (slideItem # rest) st =
     imageSlides rest
       (emit (AddImage \<lparr>img_data = Original (originalImage slideItem),
                        img_x = Inches 0, img_y = Inches 0,
                        img_w = Percent 100, img_h = Percent 100\<rparr>)
          (emit AddSlide st))"

text \<open>\<open>await pptx.writeFile(...)\<close>: the call is made; it resolves or rejects.\<close>

definition writeFile :: "world \<Rightarrow> string \<Rightarrow> state \<Rightarrow> (batch_error + unit) \<times> state" where
  "writeFile env fileName st =
     (if write_ok env then Inr () else Inl SinkWriteError, emit (WriteFile fileName) st)"

definition generateImagePptx :: "world \<Rightarrow> ProcessedSlide list \<Rightarrow> state \<Rightarrow> (batch_error + unit) \<times> state" where
  "generateImagePptx env processedSlides st =
     writeFile env ''Converted_Presentation_Img_''
       (imageSlides processedSlides
          (emit (NewPresentation ''Converted Presentation (Image Mode)'') st))"

text \<open>Apply Colors: the background, when \<open>backgroundColor\<close> is truthy.\<close>

definition applyBackground :: "SlideContent \<Rightarrow> state \<Rightarrow> state" where
  "applyBackground slideData st =
     (case backgroundColor slideData of
        None \<Rightarrow> st
      | Some c \<Rightarrow> if c \<noteq> [] then emit (SetBackground (replace_hash c)) st else st)"

definition fgColor :: "SlideContent \<Rightarrow> string" where
  "fgColor slideData =
     (case textColor slideData of
        None \<Rightarrow> ''000000''
      | Some c \<Rightarrow> if c \<noteq> [] then replace_hash c else ''000000'')"

text \<open>Add Title\<close>

definition addTitle :: "SlideContent \<Rightarrow> state \<Rightarrow> state" where
  "addTitle slideData st =
     (if title slideData \<noteq> [] then
        emit (AddText (Plain (title slideData))
                \<lparr>txt_x = Inches (1/2), txt_y = Inches (1/2), txt_w = Percent 90, txt_h = Inches 1,
                 fontSize = 32, bold = True, color = fgColor slideData,
                 align = Some ''center'', bullet = False, valign = None\<rparr>) st
      else st)"

text \<open>Add Content Text, with \<open>textY = 1.8\<close>, \<open>textH = '70%'\<close>, \<open>textW = '90%'\<close>, \<open>textX = 0.5\<close>.\<close>

text \<open>The option objects of the left and the right column of a \<open>TWO_COLUMN\<close> slide.\<close>

definition leftColOpts :: "string \<Rightarrow> text_opts" where
  "leftColOpts fg =
     \<lparr>txt_x = Inches (1/2), txt_y = Inches (9/5), txt_w = Inches (21/5), txt_h = Percent 70,
      fontSize = 18, bold = False, color = fg, align = None, bullet = True, valign = None\<rparr>"

definition rightColOpts :: "string \<Rightarrow> text_opts" where
  "rightColOpts fg =
     \<lparr>txt_x = Inches 5, txt_y = Inches (9/5), txt_w = Inches (21/5), txt_h = Percent 70,
      fontSize = 18, bold = False, color = fg, align = None, bullet = True, valign = None\<rparr>"

definition midPoint :: "string list \<Rightarrow> nat" where
  "midPoint c = nat \<lceil>(of_nat (length c) :: rat) / 2\<rceil>"

definition addContent :: "SlideContent \<Rightarrow> state \<Rightarrow> state" where
  "addContent slideData st =
     (if layoutType slideData = TWO_COLUMN then
        let leftCol = take (midPoint (content slideData)) (content slideData);
            rightCol = drop (midPoint (content slideData)) (content slideData);
            st1 = (if length leftCol > 0 then
                     emit (AddText (Runs leftCol) (leftColOpts (fgColor slideData))) st
                   else st)
        in if length rightCol > 0 then
             emit (AddText (Runs rightCol) (rightColOpts (fgColor slideData))) st1
           else st1
      else if layoutType slideData = SECTION_HEADER then
        (if length (content slideData) > 0 then
           emit (AddText (Plain (join_nl (content slideData)))
                   \<lparr>txt_x = Inches 1, txt_y = Inches (5/2), txt_w = Percent 80, txt_h = Inches 3,
                    fontSize = 24, bold = False, color = fgColor slideData,
                    align = Some ''center'', bullet = False, valign = None\<rparr>) st
         else st)
      else
        (if length (content slideData) > 0 then
           emit (AddText (Runs (content slideData))
                   \<lparr>txt_x = Inches (1/2), txt_y = Inches (9/5), txt_w = Percent 90,
                    txt_h = Percent 70, fontSize = 18, bold = False,
                    color = fgColor slideData, align = Some ''left'', bullet = True,
                    valign = Some ''top''\<rparr>) st
         else st))"

text \<open>
  Processing and Adding Figures. \<open>figure_try\<close> is the body of the \<open>try\<close> block for one
  figure: it completes (\<open>Inr ()\<close>, also on \<open>continue\<close>) or throws what \<open>cropImage\<close>
  rejected with.
\<close>

definition figure_try :: "world \<Rightarrow> string \<Rightarrow> SlideFigure \<Rightarrow> state \<Rightarrow> (crop_error + unit) \<times> state" where
  "figure_try env img figure st =
     (case boundingBox figure of (ymin, xmin, ymax, xmax) \<Rightarrow>
        if xmax \<le> xmin \<or> ymax \<le> ymin then
          (Inr (), log_console (WarnInvalidBox (boundingBox figure)) st)
        else
          (case cropImage env img (boundingBox figure)
                  (st\<lparr>crop_calls := crop_calls st @ [boundingBox figure]\<rparr>) of
             (Inl err, st') \<Rightarrow> (Inl err, st')
           | (Inr croppedImgData, st') \<Rightarrow>
               (Inr (), emit (AddImage \<lparr>img_data = Cropped croppedImgData,
                                       img_x = Percent xmin, img_y = Percent ymin,
                                       img_w = Percent (xmax - xmin),
                                       img_h = Percent (ymax - ymin)\<rparr>) st')))"

text \<open>One iteration of the loop over the figures: the \<open>try\<close> block with its \<open>catch\<close>.\<close>

definition figure_step :: "world \<Rightarrow> string \<Rightarrow> SlideFigure \<Rightarrow> state \<Rightarrow> state" where
  "figure_step env img figure st =
     (case figure_try env img figure st of
        (Inr u, st') \<Rightarrow> st'
      | (Inl err, st') \<Rightarrow> log_console (ErrorFigure err) st')"

fun figuresLoop :: "world \<Rightarrow> string \<Rightarrow> SlideFigure list \<Rightarrow> state \<Rightarrow> state" where
  "figuresLoop env img [] st = st"
| "figuresLoop env img (figure # rest) st = figuresLoop env img rest (figure_step env img figure st)"

definition addFigures :: "world \<Rightarrow> ProcessedSlide \<Rightarrow> SlideContent \<Rightarrow> state \<Rightarrow> state" where
  "addFigures env slideItem slideData st =
     (case figures slideData of
        None \<Rightarrow> st
      | Some figs \<Rightarrow>
          if length figs > 0 then figuresLoop env (originalImage slideItem) figs st else st)"

text \<open>Add Notes\<close>

definition addNotes :: "SlideContent \<Rightarrow> state \<Rightarrow> state" where
  "addNotes slideData st =
     (case slideNotes slideData of
        None \<Rightarrow> st
      | Some n \<Rightarrow> if n \<noteq> [] then emit (AddNotes n) st else st)"

text \<open>The body of the loop over the slides, for a slide whose analysis is \<open>slideData\<close>.\<close>

definition assembleSlide :: "world \<Rightarrow> ProcessedSlide \<Rightarrow> SlideContent \<Rightarrow> state \<Rightarrow> state" where
  "assembleSlide env slideItem slideData st =
     addNotes slideData
       (addFigures env slideItem slideData
          (addContent slideData
             (addTitle slideData
                (applyBackground slideData (emit AddSlide st)))))"

fun slidesLoop :: "world \<Rightarrow> ProcessedSlide list \<Rightarrow> state \<Rightarrow> state" where
  "slidesLoop env [] st = st"
| "slidesLoop env (slideItem # rest) st =
     (case analysis slideItem of
        None \<Rightarrow> slidesLoop env rest st
      | Some slideData \<Rightarrow> slidesLoop env rest (assembleSlide env slideItem slideData st))"

definition generatePptx :: "world \<Rightarrow> ProcessedSlide list \<Rightarrow> state \<Rightarrow> (batch_error + unit) \<times> state" where
  "generatePptx env processedSlides st =
     writeFile env ''Converted_Presentation_''
       (slidesLoop env processedSlides (emit (NewPresentation ''Converted Presentation'') st))"

section \<open>analyzeSlideImage (geminiService)\<close>

definition analyzeSlideImage :: "world \<Rightarrow> nat \<Rightarrow> string \<Rightarrow> analysis_error + SlideContent" where
  "analyzeSlideImage env i base64Image =
     (if \<not> api_key env then Inl ApiKeyMissing
      else case gemini env i base64Image of
             CallFailed \<Rightarrow> Inl GeminiCallError
           | Parsed a \<Rightarrow> Inr a
           | Unparseable \<Rightarrow> Inl ParseFailed
           | NoText \<Rightarrow> Inl NoResponse)"

text \<open>
  What \<open>analyzeSlideImage\<close> writes to the console during that call: the
  \<open>console.error\<close> of the handler around \<open>JSON.parse\<close>, before it throws.
\<close>

definition analyzeSlideImage_console :: "world \<Rightarrow> nat \<Rightarrow> string \<Rightarrow> log_entry list" where
  "analyzeSlideImage_console env i base64Image =
     (if \<not> api_key env then []
      else case gemini env i base64Image of
             CallFailed \<Rightarrow> []
           | Parsed a \<Rightarrow> []
           | Unparseable \<Rightarrow> [ErrorParseResponse]
           | NoText \<Rightarrow> [])"

section \<open>The controller (App.tsx)\<close>

text \<open>One iteration of the loop of \<open>analyzeSlides\<close>, on the local array and the state.\<close>

definition analyzeStep :: "world \<Rightarrow> nat \<Rightarrow> ProcessedSlide list \<times> state \<Rightarrow> ProcessedSlide list \<times> state" where
  "analyzeStep env i p =
     (case p of (updatedSlides, st) \<Rightarrow>
        let u1 = updatedSlides[i := (updatedSlides ! i)\<lparr>status := Analyzing\<rparr>];
            st0 = st\<lparr>slides := u1\<rparr>;
            st1 = st0\<lparr>console := console st0
                                    @ analyzeSlideImage_console env i (originalImage (u1 ! i))\<rparr>;
            (u2, st2) =
              (case analyzeSlideImage env i (originalImage (u1 ! i)) of
                 Inr a \<Rightarrow> (u1[i := (u1 ! i)\<lparr>analysis := Some a, status := Done\<rparr>], st1)
               | Inl err \<Rightarrow>
                   (u1[i := (u1 ! i)\<lparr>status := Error\<rparr>],
                    log_console (ErrorAnalyzing (i + 1) err) st1))
        in (u2, st2\<lparr>slides := u2, progress_current := i + 1\<rparr>))"

function analyzeLoop :: "world \<Rightarrow> nat \<Rightarrow> ProcessedSlide list \<times> state \<Rightarrow> ProcessedSlide list \<times> state" where
  "analyzeLoop env i p =
     (if i < length (fst p) then analyzeLoop env (i + 1) (analyzeStep env i p) else p)"
  by pat_completeness auto
termination
  by (relation "measure (\<lambda>(env, i, p). length (fst p) - i)") (auto simp: analyzeStep_def Let_def split: sum.splits)

declare analyzeLoop.simps [simp del]

text \<open>The \<open>try\<close> block of \<open>analyzeSlides\<close>, after the loop.\<close>

definition finalize_try :: "world \<Rightarrow> ProcessedSlide list \<Rightarrow> state \<Rightarrow> (batch_error + unit) \<times> state" where
  "finalize_try env updatedSlides st =
     (let validSlides = filter (\<lambda>s. status s = Done \<and> analysis s \<noteq> None) updatedSlides
      in if length validSlides = 0 then (Inl NoSlidesAnalyzed, st)
         else generatePptx env validSlides st)"

text \<open>The handler shared by \<open>analyzeSlides\<close> and \<open>createSimplePptx\<close>.\<close>

definition generation_outcome :: "(batch_error + unit) \<times> state \<Rightarrow> state" where
  "generation_outcome r =
     (case r of
        (Inr u, st) \<Rightarrow> st\<lparr>appState := COMPLETED\<rparr>
      | (Inl err, st) \<Rightarrow>
          (log_console (ErrorGenerate err) st)
            \<lparr>error := Some ''Failed to generate PowerPoint file.'', appState := ERROR\<rparr>)"

definition analyzeSlides :: "world \<Rightarrow> ProcessedSlide list \<Rightarrow> state \<Rightarrow> state" where
  "analyzeSlides env currentSlides st =
     (case analyzeLoop env 0 (currentSlides, st\<lparr>appState := ANALYZING_SLIDES\<rparr>) of
        (updatedSlides, st1) \<Rightarrow>
          generation_outcome (finalize_try env updatedSlides (st1\<lparr>appState := GENERATING_PPT\<rparr>)))"

definition createSimplePptx :: "world \<Rightarrow> ProcessedSlide list \<Rightarrow> state \<Rightarrow> state" where
  "createSimplePptx env currentSlides st =
     (let updatedSlides = map (\<lambda>s. s\<lparr>status := Done\<rparr>) currentSlides
      in generation_outcome
           (generateImagePptx env updatedSlides
              (st\<lparr>appState := GENERATING_PPT, slides := updatedSlides\<rparr>)))"

definition handleFileAccepted :: "world \<Rightarrow> ConversionMode \<Rightarrow> state \<Rightarrow> state" where
  "handleFileAccepted env mode st =
     (let st1 = st\<lparr>appState := PROCESSING_PDF, error := None\<rparr>
      in case pdf_pages env of
           Inl err \<Rightarrow>
             (log_console (ErrorPdf err) st1)
               \<lparr>error := Some ''Failed to process PDF. Please try a simpler file.'',
                appState := ERROR\<rparr>
         | Inr images \<Rightarrow>
             let initialSlides =
                   map (\<lambda>img. \<lparr>originalImage = img, analysis = None, status = Pending\<rparr>) images;
                 st2 = st1\<lparr>slides := initialSlides, progress_current := 0,
                          progress_total := length initialSlides\<rparr>
             in if mode = AI_EXTRACT then analyzeSlides env initialSlides st2
                else createSimplePptx env initialSlides st2)"

text \<open>The state of \<open>App\<close> before a file is dropped, with empty traces.\<close>

definition initial_state :: state where
  "initial_state =
     \<lparr>appState = IDLE, slides = [], progress_current = 0, progress_total = 0, error = None,
      sink = [], console = [], image_loads = [], crop_calls = []\<rparr>"


section \<open>Observations of the code used in the statements\<close>

text \<open>
  The draw operations and the log entries one figure contributes, and the draw operations
  of one slide: what the code appends to empty traces.
\<close>

definition figure_ops :: "world \<Rightarrow> string \<Rightarrow> SlideFigure \<Rightarrow> sink_op list" where
  "figure_ops env img figure = sink (figure_step env img figure initial_state)"

definition figure_log :: "world \<Rightarrow> string \<Rightarrow> SlideFigure \<Rightarrow> log_entry list" where
  "figure_log env img figure = console (figure_step env img figure initial_state)"

definition slide_ops :: "world \<Rightarrow> ProcessedSlide \<Rightarrow> sink_op list" where
  "slide_ops env slideItem =
     (case analysis slideItem of
        None \<Rightarrow> []
      | Some slideData \<Rightarrow> sink (assembleSlide env slideItem slideData initial_state))"

text \<open>The draw operations of the stages of one slide that do not depend on its figures.\<close>

definition background_ops :: "SlideContent \<Rightarrow> sink_op list" where
  "background_ops slideData = sink (applyBackground slideData initial_state)"

definition title_ops :: "SlideContent \<Rightarrow> sink_op list" where
  "title_ops slideData = sink (addTitle slideData initial_state)"

definition content_ops :: "SlideContent \<Rightarrow> sink_op list" where
  "content_ops slideData = sink (addContent slideData initial_state)"

definition notes_ops :: "SlideContent \<Rightarrow> sink_op list" where
  "notes_ops slideData = sink (addNotes slideData initial_state)"

text \<open>The slide that one iteration of the loop of \<open>analyzeSlides\<close> leaves at index i.\<close>

definition analyzed :: "world \<Rightarrow> nat \<Rightarrow> ProcessedSlide \<Rightarrow> ProcessedSlide" where
  "analyzed env i s =
     (case analyzeSlideImage env i (originalImage s) of
        Inr a \<Rightarrow> s\<lparr>analysis := Some a, status := Done\<rparr>
      | Inl err \<Rightarrow> s\<lparr>status := Error\<rparr>)"

text \<open>The slides kept by the filter of \<open>analyzeSlides\<close>.\<close>

definition retained :: "ProcessedSlide list \<Rightarrow> ProcessedSlide list" where
  "retained ss = filter (\<lambda>s. status s = Done \<and> analysis s \<noteq> None) ss"

text \<open>Appending the traces of a state d to those of a state st.\<close>

definition extend :: "state \<Rightarrow> state \<Rightarrow> state" where
  "extend st d =
     st\<lparr>sink := sink st @ sink d, console := console st @ console d,
        image_loads := image_loads st @ image_loads d,
        crop_calls := crop_calls st @ crop_calls d\<rparr>"

definition trace_only :: "(state \<Rightarrow> state) \<Rightarrow> bool" where
  "trace_only F = (\<forall>st. F st = extend st (F initial_state))"

section \<open>The formulas of the specification of the crop engine\<close>






section \<open>Concrete inputs\<close>

definition demo_figures :: "SlideFigure list" where
  "demo_figures =
     [\<lparr>boundingBox = (10, 20, 60, 70), description = ''chart''\<rparr>,
      \<lparr>boundingBox = (10, 50, 30, 20), description = ''inverted''\<rparr>,
      \<lparr>boundingBox = (50, 0, 100, 25), description = ''photo''\<rparr>]"

definition demo_analysis :: SlideContent where
  "demo_analysis =
     \<lparr>title = ''Intro'', content = [''a'', ''b'', ''c''], layoutType = TWO_COLUMN,
      backgroundColor = None, textColor = Some ''#112233'', slideNotes = Some ''hello'',
      figures = Some demo_figures\<rparr>"

text \<open>
  A browser that decodes \<open>page1\<close> as a 200 by 100 image, times out on \<open>page2\<close> and fails on
  anything else; an analyzer that succeeds on the first slide only; a two-page document.
\<close>

definition demo_world :: world where
  "demo_world =
     \<lparr>decode = (\<lambda>img. if img = ''page1'' then Loaded 200 100
                      else if img = ''page2'' then LoadTimedOut else LoadFailed),
      canvas_ctx = True, api_key = True,
      gemini = (\<lambda>i img. if i = 0 then Parsed demo_analysis else CallFailed),
      pdf_pages = Inr [''page1'', ''page2''],
      write_ok = True\<rparr>"

definition demo_item :: ProcessedSlide where
  "demo_item = \<lparr>originalImage = ''page1'', analysis = Some demo_analysis, status = Done\<rparr>"

text \<open>An analyzer whose every call fails, and three slides as a file of three pages gives them.\<close>

definition demo_failing_world :: world where
  "demo_failing_world = demo_world\<lparr>gemini := (\<lambda>i img. CallFailed)\<rparr>"

definition demo_pending :: "ProcessedSlide list" where
  "demo_pending =
     map (\<lambda>img. \<lparr>originalImage = img, analysis = None, status = Pending\<rparr>)
       [''page1'', ''page2'', ''page3'']"

section \<open>The crop engine\<close>

text \<open>
  C4. A box with \<open>xmax \<le> xmin\<close> or \<open>ymax \<le> ymin\<close> (zero-area or inverted) makes
  \<open>cropImage\<close> reject with the invalid-bounding-box error, in every environment and
  with the state unchanged: no image load is started and the decoding outcome is not
  consulted.
\<close>

theorem cropImage_invalid_box:
  "xmax \<le> xmin \<or> ymax \<le> ymin \<Longrightarrow>
     cropImage env img (ymin, xmin, ymax, xmax) st
       = (Inl (InvalidBoundingBox (ymin, xmin, ymax, xmax)), st)"
  by (simp add: cropImage_def)

theorem cropImage_invalid_box_witness:
  "((20::rat) \<le> 50 \<or> (30::rat) \<le> 10) \<and>
   cropImage demo_world ''page2'' (10, 50, 30, 20) initial_state
     = (Inl (InvalidBoundingBox (10, 50, 30, 20)), initial_state)"
  using cropImage_invalid_box [of 20 50 30 10 demo_world "''page2''" initial_state] by simp











section \<open>Operations that only append to the traces\<close>

lemma extend_initial [simp]: "extend st initial_state = st"
  by (simp add: extend_def initial_state_def)

lemma extend_assoc: "extend (extend a b) c = extend a (extend b c)"
  by (simp add: extend_def)

lemma extend_fields [simp]:
  "sink (extend st d) = sink st @ sink d"
  "console (extend st d) = console st @ console d"
  "image_loads (extend st d) = image_loads st @ image_loads d"
  "crop_calls (extend st d) = crop_calls st @ crop_calls d"
  "appState (extend st d) = appState st"
  "slides (extend st d) = slides st"
  "error (extend st d) = error st"
  "progress_current (extend st d) = progress_current st"
  "progress_total (extend st d) = progress_total st"
  by (simp_all add: extend_def)

lemma initial_fields [simp]:
  "sink initial_state = []" "console initial_state = []"
  "image_loads initial_state = []" "crop_calls initial_state = []"
  by (simp_all add: initial_state_def)

lemma trace_onlyD: "trace_only F \<Longrightarrow> F st = extend st (F initial_state)"
  unfolding trace_only_def by (erule allE)

lemma trace_only_id: "trace_only (\<lambda>st. st)"
  by (simp add: trace_only_def)

lemma trace_only_comp:
  assumes "trace_only F" and "trace_only G"
  shows "trace_only (\<lambda>st. G (F st))"
proof -
  have "G (F st) = extend st (G (F initial_state))" for st
  proof -
    have "G (F st) = extend (F st) (G initial_state)"
      by (rule trace_onlyD [OF assms(2)])
    also have "\<dots> = extend (extend st (F initial_state)) (G initial_state)"
      by (subst trace_onlyD [OF assms(1), of st]) (rule refl)
    also have "\<dots> = extend st (extend (F initial_state) (G initial_state))"
      by (rule extend_assoc)
    also have "extend (F initial_state) (G initial_state) = G (F initial_state)"
      by (rule trace_onlyD [OF assms(2), symmetric])
    finally show ?thesis .
  qed
  then show ?thesis unfolding trace_only_def by (rule allI)
qed

lemma trace_only_emit: "trace_only (emit op)"
  by (simp add: trace_only_def emit_def extend_def initial_state_def)

lemma trace_only_log: "trace_only (log_console e)"
  by (simp add: trace_only_def log_console_def extend_def initial_state_def)

lemma cropImage_fst: "fst (cropImage env img b st) = fst (cropImage env img b initial_state)"
  by (cases b) (simp add: cropImage_def)

lemma cropImage_snd: "snd (cropImage env img b st) = extend st (snd (cropImage env img b initial_state))"
  by (cases b) (simp add: cropImage_def extend_def initial_state_def)

lemma trace_only_figure_step: "trace_only (figure_step env img f)"
  unfolding trace_only_def
  by (cases "boundingBox f"; cases "decode env img")
     (simp_all add: figure_step_def figure_try_def cropImage_def crop_onload_def emit_def
        log_console_def extend_def initial_state_def Let_def)

lemma trace_only_figuresLoop: "trace_only (figuresLoop env img figs)"
proof (induction figs)
  case Nil
  have "figuresLoop env img [] = (\<lambda>st. st)" by (simp add: fun_eq_iff)
  then show ?case by (simp only: trace_only_id)
next
  case (Cons f figs)
  have "figuresLoop env img (f # figs) = (\<lambda>st. figuresLoop env img figs (figure_step env img f st))"
    by (simp add: fun_eq_iff)
  then show ?case
    using trace_only_comp [OF trace_only_figure_step Cons.IH] by simp
qed

lemma trace_only_applyBackground: "trace_only (applyBackground sd)"
  unfolding trace_only_def
  by (simp add: applyBackground_def emit_def extend_def initial_state_def split: option.splits)

lemma trace_only_addTitle: "trace_only (addTitle sd)"
  unfolding trace_only_def
  by (simp add: addTitle_def emit_def extend_def initial_state_def)

lemma trace_only_addContent: "trace_only (addContent sd)"
  unfolding trace_only_def
  by (simp add: addContent_def emit_def extend_def initial_state_def Let_def)

lemma trace_only_addNotes: "trace_only (addNotes sd)"
  unfolding trace_only_def
  by (simp add: addNotes_def emit_def extend_def initial_state_def split: option.splits)

lemma trace_only_addFigures: "trace_only (addFigures env item sd)"
proof (cases "figures sd")
  case None
  then have "addFigures env item sd = (\<lambda>st. st)"
    by (simp add: addFigures_def fun_eq_iff)
  then show ?thesis by (simp only: trace_only_id)
next
  case (Some figs)
  then have "addFigures env item sd = figuresLoop env (originalImage item) figs"
    by (cases figs) (simp_all add: addFigures_def fun_eq_iff)
  then show ?thesis by (simp only: trace_only_figuresLoop)
qed

lemma trace_only_assembleSlide: "trace_only (assembleSlide env item sd)"
proof -
  have eq: "assembleSlide env item sd =
          (\<lambda>st. addNotes sd (addFigures env item sd (addContent sd (addTitle sd
                   (applyBackground sd (emit AddSlide st))))))"
    by (simp add: assembleSlide_def fun_eq_iff)
  note t1 = trace_only_comp [OF trace_only_emit [of AddSlide] trace_only_applyBackground [of sd]]
  note t2 = trace_only_comp [OF t1 trace_only_addTitle [of sd]]
  note t3 = trace_only_comp [OF t2 trace_only_addContent [of sd]]
  note t4 = trace_only_comp [OF t3 trace_only_addFigures [of env item sd]]
  note t5 = trace_only_comp [OF t4 trace_only_addNotes [of sd]]
  show ?thesis unfolding eq by (rule t5)
qed

lemma sink_figure_step: "sink (figure_step env img f st) = sink st @ figure_ops env img f"
  by (subst trace_onlyD [OF trace_only_figure_step]) (simp add: figure_ops_def)

lemma console_figure_step: "console (figure_step env img f st) = console st @ figure_log env img f"
  by (subst trace_onlyD [OF trace_only_figure_step]) (simp add: figure_log_def)

lemma sink_figuresLoop:
  "sink (figuresLoop env img figs st) = sink st @ concat (map (figure_ops env img) figs)"
  by (induction figs arbitrary: st) (simp_all add: sink_figure_step)

lemma console_figuresLoop:
  "console (figuresLoop env img figs st) = console st @ concat (map (figure_log env img) figs)"
  by (induction figs arbitrary: st) (simp_all add: console_figure_step)

lemma sink_assembleSlide:
  "analysis item = Some sd \<Longrightarrow>
     sink (assembleSlide env item sd st) = sink st @ slide_ops env item"
  by (subst trace_onlyD [OF trace_only_assembleSlide]) (simp add: slide_ops_def)

lemma trace_only_slidesLoop: "trace_only (slidesLoop env items)"
proof (induction items)
  case Nil
  have "slidesLoop env [] = (\<lambda>st. st)" by (simp add: fun_eq_iff)
  then show ?case by (simp only: trace_only_id)
next
  case (Cons item items)
  show ?case
  proof (cases "analysis item")
    case None
    then have "slidesLoop env (item # items) = slidesLoop env items"
      by (simp add: fun_eq_iff)
    then show ?thesis using Cons.IH by simp
  next
    case (Some sd)
    then have "slidesLoop env (item # items)
                 = (\<lambda>st. slidesLoop env items (assembleSlide env item sd st))"
      by (simp add: fun_eq_iff)
    then show ?thesis
      using trace_only_comp [OF trace_only_assembleSlide Cons.IH] by simp
  qed
qed

lemma sink_slidesLoop:
  "sink (slidesLoop env items st) = sink st @ concat (map (slide_ops env) items)"
proof (induction items arbitrary: st)
  case Nil
  then show ?case by simp
next
  case (Cons item items)
  then show ?case
    by (cases "analysis item") (simp_all add: sink_assembleSlide, simp add: slide_ops_def)
qed

lemma fst_generatePptx:
  "fst (generatePptx env items st) = (if write_ok env then Inr () else Inl SinkWriteError)"
  by (simp add: generatePptx_def writeFile_def)

lemma snd_generatePptx:
  "snd (generatePptx env items st) = extend st (snd (generatePptx env items initial_state))"
proof -
  have "trace_only (\<lambda>st. snd (generatePptx env items st))"
    using trace_only_comp [OF trace_only_comp [OF trace_only_emit trace_only_slidesLoop] trace_only_emit]
    by (simp add: generatePptx_def writeFile_def)
  then show ?thesis by (rule trace_onlyD)
qed

lemma sink_generatePptx:
  "sink (snd (generatePptx env items st)) =
     sink st @ NewPresentation ''Converted Presentation'' # concat (map (slide_ops env) items)
       @ [WriteFile ''Converted_Presentation_'']"
  by (simp add: generatePptx_def writeFile_def emit_def sink_slidesLoop)

section \<open>Text placement\<close>

lemma midPoint_eq: "midPoint c = (length c + 1) div 2"
proof -
  have "\<lceil>(of_nat (length c) :: rat) / 2\<rceil> = \<lceil>(of_int (int (length c)) :: rat) / of_int 2\<rceil>"
    by simp
  also have "\<dots> = - (- int (length c) div 2)"
    by (rule ceiling_divide_eq_div)
  also have "\<dots> = (int (length c) + 1) div 2"
    by presburger
  finally show ?thesis
    unfolding midPoint_def by (simp add: nat_div_distrib nat_add_distrib)
qed

text \<open>
  C7. On a \<open>TWO_COLUMN\<close> slide with L content blocks, the split point is
  \<open>ceil(L / 2)\<close>; the left text operation gets the first \<open>ceil(L / 2)\<close> blocks and the
  right one the remaining \<open>L - ceil(L / 2)\<close>, and a column whose half is empty emits
  nothing: no text operation at all for \<open>L = 0\<close>, only the left one for \<open>L = 1\<close>.
\<close>

theorem two_column_split:
  assumes "layoutType sd = TWO_COLUMN"
  shows "(let c = content sd; L = length c; m = midPoint c;
              leftCol = take m c; rightCol = drop m c
          in int m = \<lceil>(of_nat L :: rat) / 2\<rceil>
             \<and> length leftCol = m \<and> length rightCol = L - m \<and> leftCol @ rightCol = c
             \<and> addContent sd st =
                 st\<lparr>sink := sink st
                     @ (if leftCol = [] then []
                        else [AddText (Runs leftCol) (leftColOpts (fgColor sd))])
                     @ (if rightCol = [] then []
                        else [AddText (Runs rightCol) (rightColOpts (fgColor sd))])\<rparr>
             \<and> (L = 0 \<longrightarrow> addContent sd st = st)
             \<and> (L = 1 \<longrightarrow> addContent sd st
                              = emit (AddText (Runs c) (leftColOpts (fgColor sd))) st))"
proof -
  let ?c = "content sd"
  let ?m = "midPoint ?c"
  have m: "?m \<le> length ?c"
    by (simp add: midPoint_eq)
  have ce: "int ?m = \<lceil>(of_nat (length ?c) :: rat) / 2\<rceil>"
  proof -
    have "(0::rat) \<le> of_nat (length ?c) / 2" by simp
    then have "0 \<le> \<lceil>(of_nat (length ?c) :: rat) / 2\<rceil>"
      using ceiling_mono [of 0 "(of_nat (length ?c) :: rat) / 2"] by simp
    then show ?thesis by (simp add: midPoint_def)
  qed
  have eq: "addContent sd st =
              st\<lparr>sink := sink st
                  @ (if take ?m ?c = [] then []
                     else [AddText (Runs (take ?m ?c)) (leftColOpts (fgColor sd))])
                  @ (if drop ?m ?c = [] then []
                     else [AddText (Runs (drop ?m ?c)) (rightColOpts (fgColor sd))])\<rparr>"
    using assms by (simp add: addContent_def emit_def Let_def)
  have z: "length ?c = 0 \<longrightarrow> addContent sd st = st"
    unfolding eq by simp
  have o: "length ?c = 1 \<longrightarrow> addContent sd st = emit (AddText (Runs ?c) (leftColOpts (fgColor sd))) st"
    unfolding eq by (auto simp: midPoint_eq emit_def)
  show ?thesis
    unfolding Let_def using ce m eq z o by (intro conjI) simp_all
qed

theorem two_column_split_witness:
  "layoutType demo_analysis = TWO_COLUMN \<and>
   addContent demo_analysis initial_state =
     initial_state\<lparr>sink := [AddText (Runs [''a'', ''b'']) (leftColOpts ''112233''),
                             AddText (Runs [''c'']) (rightColOpts ''112233'')]\<rparr> \<and>
   addContent (demo_analysis\<lparr>content := [''a'']\<rparr>) initial_state =
     emit (AddText (Runs [''a'']) (leftColOpts ''112233'')) initial_state \<and>
   addContent (demo_analysis\<lparr>content := []\<rparr>) initial_state = initial_state"
  using two_column_split [of demo_analysis initial_state]
    two_column_split [of "demo_analysis\<lparr>content := [''a'']\<rparr>" initial_state]
    two_column_split [of "demo_analysis\<lparr>content := []\<rparr>" initial_state]
  by (simp add: demo_analysis_def Let_def midPoint_eq fgColor_def initial_state_def emit_def)

section \<open>The operations of one slide\<close>

lemma sink_trace_only: "trace_only F \<Longrightarrow> sink (F st) = sink st @ sink (F initial_state)"
  by (subst trace_onlyD [of F st]) simp_all

lemma sink_emit: "sink (emit op st) = sink st @ [op]"
  by (simp add: emit_def)

lemma slide_ops_parts:
  assumes "analysis item = Some sd"
  shows "slide_ops env item =
           AddSlide # background_ops sd @ title_ops sd @ content_ops sd
             @ concat (map (figure_ops env (originalImage item))
                        (case figures sd of None \<Rightarrow> [] | Some figs \<Rightarrow> figs))
             @ notes_ops sd"
proof -
  have f: "sink (addFigures env item sd st) =
             sink st @ concat (map (figure_ops env (originalImage item))
                                (case figures sd of None \<Rightarrow> [] | Some figs \<Rightarrow> figs))" for st
    by (cases "figures sd") (simp_all add: addFigures_def sink_figuresLoop)
  show ?thesis
    using assms
    by (simp add: slide_ops_def assembleSlide_def f background_ops_def title_ops_def
          content_ops_def notes_ops_def
          sink_trace_only [OF trace_only_addNotes, of sd "addFigures env item sd st" for st]
          sink_trace_only [OF trace_only_addContent, of sd "addTitle sd st" for st]
          sink_trace_only [OF trace_only_addTitle, of sd "applyBackground sd st" for st]
          sink_trace_only [OF trace_only_applyBackground, of sd "emit AddSlide st" for st]
          sink_emit)
qed

lemma background_ops_eq:
  "background_ops sd =
     (case backgroundColor sd of
        None \<Rightarrow> []
      | Some c \<Rightarrow> if c = [] then [] else [SetBackground (replace_hash c)])"
  by (simp add: background_ops_def applyBackground_def emit_def split: option.splits)

lemma title_ops_color: "AddText body opts \<in> set (title_ops sd) \<Longrightarrow> color opts = fgColor sd"
  by (auto simp: title_ops_def addTitle_def emit_def split: if_splits)

lemma content_ops_color: "AddText body opts \<in> set (content_ops sd) \<Longrightarrow> color opts = fgColor sd"
  by (auto simp: content_ops_def addContent_def emit_def Let_def leftColOpts_def rightColOpts_def
      split: if_splits)

lemma figure_ops_cases:
  "figure_ops env img f = [] \<or> (\<exists>io. figure_ops env img f = [AddImage io])"
  by (cases "boundingBox f"; cases "decode env img")
     (simp_all add: figure_ops_def figure_step_def figure_try_def cropImage_def crop_onload_def
        emit_def log_console_def initial_state_def Let_def)

lemma figure_ops_images: "op \<in> set (figure_ops env img f) \<Longrightarrow> \<exists>io. op = AddImage io"
  using figure_ops_cases [of env img f] by auto

lemma notes_ops_eq:
  "notes_ops sd =
     (case slideNotes sd of None \<Rightarrow> [] | Some n \<Rightarrow> if n = [] then [] else [AddNotes n])"
  by (simp add: notes_ops_def addNotes_def emit_def split: option.splits)

lemma title_ops_no_background: "SetBackground c \<notin> set (title_ops sd)"
  by (auto simp: title_ops_def addTitle_def emit_def split: if_splits)

lemma content_ops_no_background: "SetBackground c \<notin> set (content_ops sd)"
  by (auto simp: content_ops_def addContent_def emit_def Let_def split: if_splits)

text \<open>
  C9 as the claim states it fails: for a slide whose analysis gives no
  \<open>backgroundColor\<close>, no background operation is emitted at all (no default white).
\<close>

theorem no_background_counterexample:
  "backgroundColor demo_analysis = None \<and>
   sink (assembleSlide demo_world demo_item (demo_analysis\<lparr>figures := None\<rparr>) initial_state) =
     [AddSlide,
      AddText (Plain ''Intro'')
        \<lparr>txt_x = Inches (1/2), txt_y = Inches (1/2), txt_w = Percent 90, txt_h = Inches 1,
         fontSize = 32, bold = True, color = ''112233'', align = Some ''center'',
         bullet = False, valign = None\<rparr>,
      AddText (Runs [''a'', ''b'']) (leftColOpts ''112233''),
      AddText (Runs [''c'']) (rightColOpts ''112233''),
      AddNotes ''hello'']"
  by (simp add: assembleSlide_def demo_analysis_def addNotes_def addFigures_def addContent_def
        addTitle_def applyBackground_def emit_def initial_state_def Let_def fgColor_def
        midPoint_eq)

text \<open>
  C9, amended. For every assembled slide with analysis present, the text color is
  resolved from the analysis with default black (\<open>000000\<close>) and a leading \<open>#\<close> is
  stripped; the operations of the slide start with the new slide, followed by one
  "set background" operation exactly when \<open>backgroundColor\<close> is present and non-empty
  (with its leading \<open>#\<close> stripped) and by no background operation otherwise; every
  emitted text operation uses the resolved text color.
\<close>

theorem slide_colors:
  assumes "analysis item = Some sd"
  shows "fgColor sd = (case textColor sd of
                         None \<Rightarrow> ''000000''
                       | Some c \<Rightarrow> if c = [] then ''000000'' else replace_hash c)
         \<and> (\<forall>cs. replace_hash (CHR ''#'' # cs) = cs)
         \<and> sink (assembleSlide env item sd st) = sink st @ slide_ops env item
         \<and> (\<exists>rest. slide_ops env item =
                      AddSlide #
                      (case backgroundColor sd of
                         None \<Rightarrow> []
                       | Some c \<Rightarrow> if c = [] then [] else [SetBackground (replace_hash c)])
                      @ rest
                    \<and> (\<forall>c. SetBackground c \<notin> set rest))
         \<and> (\<forall>body opts. AddText body opts \<in> set (slide_ops env item)
                           \<longrightarrow> color opts = fgColor sd)"
proof -
  define fops where
    "fops = concat (map (figure_ops env (originalImage item))
                     (case figures sd of None \<Rightarrow> [] | Some figs \<Rightarrow> figs))"
  define rest where "rest = title_ops sd @ content_ops sd @ fops @ notes_ops sd"
  have parts: "slide_ops env item = AddSlide # background_ops sd @ rest"
    using slide_ops_parts [OF assms] by (simp add: rest_def fops_def)
  have fg: "fgColor sd = (case textColor sd of
                            None \<Rightarrow> ''000000''
                          | Some c \<Rightarrow> if c = [] then ''000000'' else replace_hash c)"
    by (simp add: fgColor_def split: option.splits)
  have img: "\<exists>io. op = AddImage io" if "op \<in> set fops" for op
    using that figure_ops_images unfolding fops_def by fastforce
  have nofig: "SetBackground c \<notin> set fops" for c
    using img by blast
  have nonotes: "SetBackground c \<notin> set (notes_ops sd)" for c
    by (simp add: notes_ops_eq split: option.splits)
  have norest: "\<forall>c. SetBackground c \<notin> set rest"
    unfolding rest_def
    using nofig nonotes title_ops_no_background content_ops_no_background by simp
  have bgtext: "AddText body opts \<notin> set (background_ops sd)" for body opts
    by (simp add: background_ops_eq split: option.splits)
  have figtext: "AddText body opts \<notin> set fops" for body opts
    using img by blast
  have notestext: "AddText body opts \<notin> set (notes_ops sd)" for body opts
    by (simp add: notes_ops_eq split: option.splits)
  have col: "\<forall>body opts. AddText body opts \<in> set (slide_ops env item) \<longrightarrow> color opts = fgColor sd"
    unfolding parts rest_def
    using bgtext figtext notestext title_ops_color content_ops_color
    by auto
  have ex: "\<exists>rest. slide_ops env item =
                      AddSlide #
                      (case backgroundColor sd of
                         None \<Rightarrow> []
                       | Some c \<Rightarrow> if c = [] then [] else [SetBackground (replace_hash c)])
                      @ rest
                    \<and> (\<forall>c. SetBackground c \<notin> set rest)"
    using parts norest unfolding background_ops_eq by blast
  show ?thesis
    using fg sink_assembleSlide [OF assms] ex col by simp
qed

theorem slide_colors_witness:
  "analysis (demo_item\<lparr>analysis := Some (demo_analysis\<lparr>backgroundColor := Some ''#FFEE00'',
                                                        figures := None\<rparr>)\<rparr>)
     = Some (demo_analysis\<lparr>backgroundColor := Some ''#FFEE00'', figures := None\<rparr>) \<and>
   fgColor (demo_analysis\<lparr>backgroundColor := Some ''#FFEE00'', figures := None\<rparr>) = ''112233'' \<and>
   slide_ops demo_world
     (demo_item\<lparr>analysis := Some (demo_analysis\<lparr>backgroundColor := Some ''#FFEE00'',
                                                   figures := None\<rparr>)\<rparr>) =
     [AddSlide, SetBackground ''FFEE00'',
      AddText (Plain ''Intro'')
        \<lparr>txt_x = Inches (1/2), txt_y = Inches (1/2), txt_w = Percent 90, txt_h = Inches 1,
         fontSize = 32, bold = True, color = ''112233'', align = Some ''center'',
         bullet = False, valign = None\<rparr>,
      AddText (Runs [''a'', ''b'']) (leftColOpts ''112233''),
      AddText (Runs [''c'']) (rightColOpts ''112233''),
      AddNotes ''hello'']"
  using slide_colors [of "demo_item\<lparr>analysis := Some (demo_analysis\<lparr>backgroundColor := Some ''#FFEE00'',
                                                        figures := None\<rparr>)\<rparr>"
      "demo_analysis\<lparr>backgroundColor := Some ''#FFEE00'', figures := None\<rparr>"
      demo_world initial_state]
  by (simp add: slide_ops_def assembleSlide_def demo_analysis_def demo_item_def addNotes_def
        addFigures_def addContent_def addTitle_def applyBackground_def emit_def
        initial_state_def Let_def fgColor_def midPoint_eq)

section \<open>Figures\<close>

lemma console_trace_only:
  "trace_only F \<Longrightarrow> console (F st) = console st @ console (F initial_state)"
  by (subst trace_onlyD [of F st]) simp_all

lemma crop_calls_trace_only:
  "trace_only F \<Longrightarrow> crop_calls (F st) = crop_calls st @ crop_calls (F initial_state)"
  by (subst trace_onlyD [of F st]) simp_all

lemma console_emit: "console (emit op st) = console st"
  by (simp add: emit_def)

lemma console_text_stages:
  "console (applyBackground sd st) = console st"
  "console (addTitle sd st) = console st"
  "console (addContent sd st) = console st"
  "console (addNotes sd st) = console st"
  by (simp_all add: applyBackground_def addTitle_def addContent_def addNotes_def emit_def Let_def
      split: option.splits)

lemma console_assembleSlide:
  "console (assembleSlide env item sd st) =
     console st @ concat (map (figure_log env (originalImage item))
                           (case figures sd of None \<Rightarrow> [] | Some figs \<Rightarrow> figs))"
  by (cases "figures sd")
     (simp_all add: assembleSlide_def addFigures_def console_text_stages console_emit
        console_figuresLoop)




lemma figure_invalid:
  assumes "boundingBox f = (ymin, xmin, ymax, xmax)" and "xmax \<le> xmin \<or> ymax \<le> ymin"
  shows "figure_ops env img f = [] \<and> figure_log env img f = [WarnInvalidBox (boundingBox f)]"
  using assms
  by (simp add: figure_ops_def figure_log_def figure_step_def figure_try_def log_console_def)

lemma figure_valid:
  assumes "boundingBox f = (ymin, xmin, ymax, xmax)" and "\<not> (xmax \<le> xmin \<or> ymax \<le> ymin)"
  shows "case fst (cropImage env img (boundingBox f) initial_state) of
           Inl err \<Rightarrow> figure_ops env img f = [] \<and> figure_log env img f = [ErrorFigure err]
         | Inr d \<Rightarrow>
             figure_ops env img f =
               [AddImage \<lparr>img_data = Cropped d, img_x = Percent xmin, img_y = Percent ymin,
                          img_w = Percent (xmax - xmin), img_h = Percent (ymax - ymin)\<rparr>]
             \<and> figure_log env img f = []"
  using assms
  by (cases "decode env img")
     (simp_all add: figure_ops_def figure_log_def figure_step_def figure_try_def cropImage_def
        crop_onload_def emit_def log_console_def initial_state_def Let_def)



section \<open>Calls of the crop engine\<close>

lemma crop_calls_text_stages:
  "crop_calls (emit op st) = crop_calls st"
  "crop_calls (applyBackground sd st) = crop_calls st"
  "crop_calls (addTitle sd st) = crop_calls st"
  "crop_calls (addContent sd st) = crop_calls st"
  "crop_calls (addNotes sd st) = crop_calls st"
  by (simp_all add: applyBackground_def addTitle_def addContent_def addNotes_def emit_def Let_def
      split: option.splits)

lemma crop_calls_figure_step:
  "crop_calls (figure_step env img f st) =
     crop_calls st @
       (case boundingBox f of (ymin, xmin, ymax, xmax) \<Rightarrow>
          if xmax \<le> xmin \<or> ymax \<le> ymin then [] else [boundingBox f])"
  by (cases "boundingBox f"; cases "decode env img")
     (simp_all add: figure_step_def figure_try_def cropImage_def crop_onload_def emit_def
        log_console_def Let_def)

lemma figure_step_calls_valid:
  "b \<in> set (crop_calls (figure_step env img f initial_state)) \<Longrightarrow>
     (case b of (ymin, xmin, ymax, xmax) \<Rightarrow> xmin < xmax \<and> ymin < ymax)"
  by (cases "boundingBox f") (auto simp: crop_calls_figure_step split: if_splits)

lemma figuresLoop_calls_valid:
  "b \<in> set (crop_calls (figuresLoop env img figs initial_state)) \<Longrightarrow>
     (case b of (ymin, xmin, ymax, xmax) \<Rightarrow> xmin < xmax \<and> ymin < ymax)"
proof (induction figs)
  case Nil
  then show ?case by simp
next
  case (Cons f figs)
  have "crop_calls (figuresLoop env img (f # figs) initial_state) =
          crop_calls (figure_step env img f initial_state)
            @ crop_calls (figuresLoop env img figs initial_state)"
    using crop_calls_trace_only [OF trace_only_figuresLoop,
            of env img figs "figure_step env img f initial_state"]
    by simp
  then show ?case
    using Cons figure_step_calls_valid [of b env img f] by auto
qed

lemma assembleSlide_calls_valid:
  "b \<in> set (crop_calls (assembleSlide env item sd initial_state)) \<Longrightarrow>
     (case b of (ymin, xmin, ymax, xmax) \<Rightarrow> xmin < xmax \<and> ymin < ymax)"
proof -
  assume b: "b \<in> set (crop_calls (assembleSlide env item sd initial_state))"
  have "crop_calls (assembleSlide env item sd initial_state) =
          crop_calls (addFigures env item sd initial_state)"
    using crop_calls_trace_only [OF trace_only_addFigures, of env item sd
            "addContent sd (addTitle sd (applyBackground sd (emit AddSlide initial_state)))"]
    by (simp add: assembleSlide_def crop_calls_text_stages)
  then have "b \<in> set (crop_calls (addFigures env item sd initial_state))"
    using b by simp
  then show ?thesis
    using figuresLoop_calls_valid [of b env "originalImage item"]
    by (cases "figures sd") (auto simp: addFigures_def split: if_splits)
qed

lemma slidesLoop_calls_valid:
  "b \<in> set (crop_calls (slidesLoop env items initial_state)) \<Longrightarrow>
     (case b of (ymin, xmin, ymax, xmax) \<Rightarrow> xmin < xmax \<and> ymin < ymax)"
proof (induction items)
  case Nil
  then show ?case by simp
next
  case (Cons item items)
  show ?case
  proof (cases "analysis item")
    case None
    then show ?thesis using Cons by simp
  next
    case (Some sd)
    have "crop_calls (slidesLoop env (item # items) initial_state) =
            crop_calls (assembleSlide env item sd initial_state)
              @ crop_calls (slidesLoop env items initial_state)"
      using crop_calls_trace_only [OF trace_only_slidesLoop,
              of env items "assembleSlide env item sd initial_state"] Some
      by simp
    then show ?thesis
      using Cons assembleSlide_calls_valid [of b env item sd] by auto
  qed
qed

lemma cropImage_valid_not_rejected:
  "xmin < xmax \<Longrightarrow> ymin < ymax \<Longrightarrow>
     fst (cropImage env img (ymin, xmin, ymax, xmax) st) \<noteq> Inl (InvalidBoundingBox b)"
  by (cases "decode env img") (simp_all add: cropImage_def crop_onload_def Let_def)

lemma figure_log_no_invalid: "ErrorFigure (InvalidBoundingBox b) \<notin> set (figure_log env img f)"
proof -
  obtain ymin xmin ymax xmax where bb: "boundingBox f = (ymin, xmin, ymax, xmax)"
    by (cases "boundingBox f") auto
  show ?thesis
  proof (cases "xmax \<le> xmin \<or> ymax \<le> ymin")
    case True
    then show ?thesis using figure_invalid [OF bb True, of env img] by simp
  next
    case False
    then have v: "xmin < xmax" "ymin < ymax" by simp_all
    show ?thesis
      using figure_valid [OF bb False, of env img]
        cropImage_valid_not_rejected [OF v, of env img initial_state b]
      by (cases "fst (cropImage env img (boundingBox f) initial_state)") (auto simp: bb)
  qed
qed

lemma slidesLoop_log_no_invalid:
  "ErrorFigure (InvalidBoundingBox b) \<notin> set (console (slidesLoop env items initial_state))"
proof (induction items)
  case Nil
  then show ?case by simp
next
  case (Cons item items)
  show ?case
  proof (cases "analysis item")
    case None
    then show ?thesis using Cons by simp
  next
    case (Some sd)
    have "console (slidesLoop env (item # items) initial_state) =
            console (assembleSlide env item sd initial_state)
              @ console (slidesLoop env items initial_state)"
      using console_trace_only [OF trace_only_slidesLoop,
              of env items "assembleSlide env item sd initial_state"] Some
      by simp
    then show ?thesis
      using Cons figure_log_no_invalid [of b env "originalImage item"]
      by (auto simp: console_assembleSlide)
  qed
qed

text \<open>
  C10. Every call of \<open>cropImage\<close> made while a deck is generated has a box with
  \<open>xmin < xmax\<close> and \<open>ymin < ymax\<close>: the figures with other boxes are skipped before the
  call. On such a box \<open>cropImage\<close> never rejects with the invalid-bounding-box error, in
  any environment, and no such error is ever caught and logged by the assembler.
\<close>

theorem assembler_crop_calls_valid:
  "crop_calls (snd (generatePptx env items st)) =
     crop_calls st @ crop_calls (snd (generatePptx env items initial_state))
   \<and> (\<forall>b \<in> set (crop_calls (snd (generatePptx env items initial_state))).
         (case b of (ymin, xmin, ymax, xmax) \<Rightarrow> xmin < xmax \<and> ymin < ymax)
         \<and> (\<forall>env' img st' b'. fst (cropImage env' img b st') \<noteq> Inl (InvalidBoundingBox b')))
   \<and> (\<forall>b. ErrorFigure (InvalidBoundingBox b)
              \<notin> set (console (snd (generatePptx env items initial_state))))"
proof -
  have c: "crop_calls (snd (generatePptx env items initial_state)) =
             crop_calls (slidesLoop env items initial_state)"
    using crop_calls_trace_only [OF trace_only_slidesLoop, of env items
            "emit (NewPresentation ''Converted Presentation'') initial_state"]
    by (simp add: generatePptx_def writeFile_def crop_calls_text_stages)
  have l: "console (snd (generatePptx env items initial_state)) =
             console (slidesLoop env items initial_state)"
    using console_trace_only [OF trace_only_slidesLoop, of env items
            "emit (NewPresentation ''Converted Presentation'') initial_state"]
    by (simp add: generatePptx_def writeFile_def console_emit)
  have a: "crop_calls (snd (generatePptx env items st)) =
             crop_calls st @ crop_calls (snd (generatePptx env items initial_state))"
    by (subst snd_generatePptx) simp
  have v: "(case b of (ymin, xmin, ymax, xmax) \<Rightarrow> xmin < xmax \<and> ymin < ymax)
           \<and> (\<forall>env' img st' b'. fst (cropImage env' img b st') \<noteq> Inl (InvalidBoundingBox b'))"
    if "b \<in> set (crop_calls (snd (generatePptx env items initial_state)))" for b
  proof -
    obtain ymin xmin ymax xmax where bb: "b = (ymin, xmin, ymax, xmax)"
      by (cases b) auto
    have "xmin < xmax \<and> ymin < ymax"
      using slidesLoop_calls_valid [of b env items] that by (simp add: c bb)
    then show ?thesis
      using cropImage_valid_not_rejected [of xmin xmax ymin ymax] by (simp add: bb)
  qed
  have n: "\<forall>b. ErrorFigure (InvalidBoundingBox b)
                 \<notin> set (console (snd (generatePptx env items initial_state)))"
    unfolding l by (rule allI) (rule slidesLoop_log_no_invalid)
  from v have v': "\<forall>b \<in> set (crop_calls (snd (generatePptx env items initial_state))).
         (case b of (ymin, xmin, ymax, xmax) \<Rightarrow> xmin < xmax \<and> ymin < ymax)
         \<and> (\<forall>env' img st' b'. fst (cropImage env' img b st') \<noteq> Inl (InvalidBoundingBox b'))"
    by (rule ballI)
  show ?thesis
    using a v' n by (intro conjI) assumption+
qed

theorem assembler_crop_calls_valid_witness:
  "crop_calls (snd (generatePptx demo_world [demo_item] initial_state)) =
     [(10, 20, 60, 70), (50, 0, 100, 25)] \<and>
   (10, 20, 60, 70) \<in> set (crop_calls (snd (generatePptx demo_world [demo_item] initial_state))) \<and>
   (20::rat) < 70 \<and> (10::rat) < 60 \<and>
   fst (cropImage demo_world ''page2'' (10, 20, 60, 70) initial_state)
     \<noteq> Inl (InvalidBoundingBox (10, 20, 60, 70))"
proof -
  have calls: "crop_calls (snd (generatePptx demo_world [demo_item] initial_state)) =
                 [(10, 20, 60, 70), (50, 0, 100, 25)]"
    by (simp add: generatePptx_def writeFile_def assembleSlide_def demo_world_def demo_item_def
          demo_analysis_def demo_figures_def addNotes_def addFigures_def addContent_def
          addTitle_def applyBackground_def emit_def log_console_def figure_step_def
          figure_try_def cropImage_def crop_onload_def initial_state_def Let_def fgColor_def
          midPoint_eq)
  then have mem: "(10, 20, 60, 70)
                    \<in> set (crop_calls (snd (generatePptx demo_world [demo_item] initial_state)))"
    by simp
  note valid = assembler_crop_calls_valid [of demo_world "[demo_item]" initial_state,
      THEN conjunct2, THEN conjunct1, rule_format, OF mem]
  from valid have "(20::rat) < 70 \<and> (10::rat) < 60" by simp
  moreover from valid
  have "fst (cropImage demo_world ''page2'' (10, 20, 60, 70) initial_state)
          \<noteq> Inl (InvalidBoundingBox (10, 20, 60, 70))"
    by blast
  ultimately show ?thesis using calls mem by simp
qed

section \<open>The analysis loop\<close>

lemma analyzeLoop_step:
  "i < length (fst p) \<Longrightarrow> analyzeLoop env i p = analyzeLoop env (i + 1) (analyzeStep env i p)"
  by (subst analyzeLoop.simps) simp

lemma analyzeLoop_done: "\<not> i < length (fst p) \<Longrightarrow> analyzeLoop env i p = p"
  by (subst analyzeLoop.simps) simp

lemma fst_analyzeStep:
  "i < length (fst p) \<Longrightarrow> fst (analyzeStep env i p) = (fst p)[i := analyzed env i (fst p ! i)]"
  by (cases p) (simp add: analyzeStep_def analyzed_def Let_def split: sum.splits)

lemma snd_analyzeStep_fields:
  "sink (snd (analyzeStep env i p)) = sink (snd p)"
  "crop_calls (snd (analyzeStep env i p)) = crop_calls (snd p)"
  "image_loads (snd (analyzeStep env i p)) = image_loads (snd p)"
  "appState (snd (analyzeStep env i p)) = appState (snd p)"
  "error (snd (analyzeStep env i p)) = error (snd p)"
  "progress_total (snd (analyzeStep env i p)) = progress_total (snd p)"
  "progress_current (snd (analyzeStep env i p)) = i + 1"
  "slides (snd (analyzeStep env i p)) = fst (analyzeStep env i p)"
  by (cases p; simp add: analyzeStep_def log_console_def Let_def split: sum.splits)+

lemma length_analyzeLoop: "length (fst (analyzeLoop env i p)) = length (fst p)"
proof (induction env i p rule: analyzeLoop.induct)
  case (1 env i p)
  show ?case
  proof (cases "i < length (fst p)")
    case True
    then show ?thesis
      using "1" by (simp add: analyzeLoop_step fst_analyzeStep)
  next
    case False
    then show ?thesis by (simp add: analyzeLoop_done)
  qed
qed

lemma nth_analyzeLoop:
  "j < length (fst p) \<Longrightarrow>
     fst (analyzeLoop env i p) ! j = (if i \<le> j then analyzed env j (fst p ! j) else fst p ! j)"
proof (induction env i p rule: analyzeLoop.induct)
  case (1 env i p)
  show ?case
  proof (cases "i < length (fst p)")
    case True
    have "fst (analyzeLoop env i p) ! j = fst (analyzeLoop env (i + 1) (analyzeStep env i p)) ! j"
      using True by (simp add: analyzeLoop_step)
    also have "\<dots> = (if i + 1 \<le> j then analyzed env j (fst (analyzeStep env i p) ! j)
                      else fst (analyzeStep env i p) ! j)"
      using "1.IH" [OF True] "1.prems" True by (simp add: fst_analyzeStep)
    also have "\<dots> = (if i \<le> j then analyzed env j (fst p ! j) else fst p ! j)"
      using True "1.prems" by (cases "i = j") (auto simp: fst_analyzeStep nth_list_update)
    finally show ?thesis .
  next
    case False
    then show ?thesis using "1.prems" by (simp add: analyzeLoop_done)
  qed
qed

lemma snd_analyzeLoop_fields:
  "sink (snd (analyzeLoop env i p)) = sink (snd p)
   \<and> crop_calls (snd (analyzeLoop env i p)) = crop_calls (snd p)
   \<and> image_loads (snd (analyzeLoop env i p)) = image_loads (snd p)
   \<and> appState (snd (analyzeLoop env i p)) = appState (snd p)
   \<and> error (snd (analyzeLoop env i p)) = error (snd p)
   \<and> progress_total (snd (analyzeLoop env i p)) = progress_total (snd p)
   \<and> progress_current (snd (analyzeLoop env i p))
       = (if i < length (fst p) then length (fst p) else progress_current (snd p))
   \<and> slides (snd (analyzeLoop env i p))
       = (if i < length (fst p) then fst (analyzeLoop env i p) else slides (snd p))"
proof (induction env i p rule: analyzeLoop.induct)
  case (1 env i p)
  show ?case
  proof (cases "i < length (fst p)")
    case True
    then show ?thesis
      using "1.IH" [OF True]
      by (auto simp: analyzeLoop_step [OF True] snd_analyzeStep_fields fst_analyzeStep
            analyzeLoop_done)
  next
    case False
    then show ?thesis by (simp add: analyzeLoop_done)
  qed
qed

lemma analyzeLoop_closed:
  "fst (analyzeLoop env 0 (us, st)) = map (\<lambda>(i, s). analyzed env i s) (enumerate 0 us)"
  using nth_analyzeLoop [of _ "(us, st)" env 0] length_analyzeLoop [of env 0 "(us, st)"]
  by (simp add: list_eq_iff_nth_eq nth_enumerate_eq)

section \<open>The outcome of a batch\<close>

lemma generation_outcome_fields:
  "sink (generation_outcome r) = sink (snd r)"
  "slides (generation_outcome r) = slides (snd r)"
  "progress_current (generation_outcome r) = progress_current (snd r)"
  "crop_calls (generation_outcome r) = crop_calls (snd r)"
  "appState (generation_outcome r) = (case fst r of Inr u \<Rightarrow> COMPLETED | Inl err \<Rightarrow> ERROR)"
  "error (generation_outcome r) =
     (case fst r of Inr u \<Rightarrow> error (snd r)
      | Inl err \<Rightarrow> Some ''Failed to generate PowerPoint file.'')"
  "console (generation_outcome r) =
     (case fst r of Inr u \<Rightarrow> console (snd r)
      | Inl err \<Rightarrow> console (snd r) @ [ErrorGenerate err])"
  by (cases r; cases "fst r"; simp add: generation_outcome_def log_console_def)+

lemma snd_generatePptx_fields:
  "appState (snd (generatePptx env items st)) = appState st"
  "slides (snd (generatePptx env items st)) = slides st"
  "error (snd (generatePptx env items st)) = error st"
  "progress_current (snd (generatePptx env items st)) = progress_current st"
  by (subst snd_generatePptx, simp)+

lemma finalize_try_empty:
  "retained updated = [] \<Longrightarrow> finalize_try env updated st = (Inl NoSlidesAnalyzed, st)"
  by (simp add: finalize_try_def retained_def)

lemma finalize_try_nonempty:
  "retained updated \<noteq> [] \<Longrightarrow>
     finalize_try env updated st = generatePptx env (retained updated) st"
  by (simp add: finalize_try_def retained_def)

lemma analyzeSlides_fields:
  fixes st :: state and env :: world and currentSlides :: "ProcessedSlide list"
  defines "loop \<equiv> analyzeLoop env 0 (currentSlides, st\<lparr>appState := ANALYZING_SLIDES\<rparr>)"
  shows "sink (analyzeSlides env currentSlides st) =
           sink st @ (if retained (fst loop) = [] then []
                      else NewPresentation ''Converted Presentation''
                           # concat (map (slide_ops env) (retained (fst loop)))
                           @ [WriteFile ''Converted_Presentation_''])"
    and "appState (analyzeSlides env currentSlides st) =
           (if retained (fst loop) \<noteq> [] \<and> write_ok env then COMPLETED else ERROR)"
    and "error (analyzeSlides env currentSlides st) =
           (if retained (fst loop) \<noteq> [] \<and> write_ok env then error st
            else Some ''Failed to generate PowerPoint file.'')"
    and "slides (analyzeSlides env currentSlides st) =
           (if currentSlides = [] then slides st else fst loop)"
    and "progress_current (analyzeSlides env currentSlides st) =
           (if currentSlides = [] then progress_current st else length currentSlides)"
    and "retained (fst loop) = [] \<Longrightarrow>
           console (analyzeSlides env currentSlides st)
             = console (snd loop) @ [ErrorGenerate NoSlidesAnalyzed]"
    and "retained (fst loop) \<noteq> [] \<Longrightarrow> \<not> write_ok env \<Longrightarrow>
           last (console (analyzeSlides env currentSlides st)) = ErrorGenerate SinkWriteError"
proof -
  let ?st1 = "(snd loop)\<lparr>appState := GENERATING_PPT\<rparr>"
  have as: "analyzeSlides env currentSlides st
              = generation_outcome (finalize_try env (fst loop) ?st1)"
    by (simp add: analyzeSlides_def loop_def split: prod.splits)
  note lf = snd_analyzeLoop_fields [of env 0 "(currentSlides, st\<lparr>appState := ANALYZING_SLIDES\<rparr>)",
      folded loop_def]
  show "sink (analyzeSlides env currentSlides st) =
           sink st @ (if retained (fst loop) = [] then []
                      else NewPresentation ''Converted Presentation''
                           # concat (map (slide_ops env) (retained (fst loop)))
                           @ [WriteFile ''Converted_Presentation_''])"
    using lf
    by (cases "retained (fst loop) = []")
       (simp_all add: as generation_outcome_fields finalize_try_empty finalize_try_nonempty
          sink_generatePptx)
  show "appState (analyzeSlides env currentSlides st) =
           (if retained (fst loop) \<noteq> [] \<and> write_ok env then COMPLETED else ERROR)"
    by (cases "retained (fst loop) = []")
       (simp_all add: as generation_outcome_fields finalize_try_empty finalize_try_nonempty
          fst_generatePptx)
  show "error (analyzeSlides env currentSlides st) =
           (if retained (fst loop) \<noteq> [] \<and> write_ok env then error st
            else Some ''Failed to generate PowerPoint file.'')"
    using lf
    by (cases "retained (fst loop) = []")
       (simp_all add: as generation_outcome_fields finalize_try_empty finalize_try_nonempty
          fst_generatePptx snd_generatePptx_fields)
  show "slides (analyzeSlides env currentSlides st) =
           (if currentSlides = [] then slides st else fst loop)"
    using lf
    by (cases "retained (fst loop) = []")
       (simp_all add: as generation_outcome_fields finalize_try_empty finalize_try_nonempty
          snd_generatePptx_fields)
  show "progress_current (analyzeSlides env currentSlides st) =
           (if currentSlides = [] then progress_current st else length currentSlides)"
    using lf
    by (cases "retained (fst loop) = []")
       (simp_all add: as generation_outcome_fields finalize_try_empty finalize_try_nonempty
          snd_generatePptx_fields)
  show "console (analyzeSlides env currentSlides st)
             = console (snd loop) @ [ErrorGenerate NoSlidesAnalyzed]"
    if "retained (fst loop) = []"
    using that by (simp add: as generation_outcome_fields finalize_try_empty)
  show "last (console (analyzeSlides env currentSlides st)) = ErrorGenerate SinkWriteError"
    if "retained (fst loop) \<noteq> []" and "\<not> write_ok env"
    using that
    by (simp add: as generation_outcome_fields finalize_try_nonempty fst_generatePptx)
qed

lemma analyzed_failed:
  "analyzeSlideImage env i (originalImage s) = Inl err \<Longrightarrow>
     status (analyzed env i s) = Error"
  by (simp add: analyzed_def)

lemma retained_all_failed:
  assumes "\<forall>i < length us. \<exists>err. analyzeSlideImage env i (originalImage (us ! i)) = Inl err"
  shows "retained (fst (analyzeLoop env 0 (us, st))) = []"
proof -
  have "status s = Error" if "s \<in> set (fst (analyzeLoop env 0 (us, st)))" for s
  proof -
    from that obtain j where j: "j < length us" and s: "s = fst (analyzeLoop env 0 (us, st)) ! j"
      using length_analyzeLoop [of env 0 "(us, st)"] by (auto simp: in_set_conv_nth)
    have "s = analyzed env j (us ! j)"
      using nth_analyzeLoop [of j "(us, st)" env 0] j s by simp
    then show ?thesis
      using assms j analyzed_failed by blast
  qed
  then show ?thesis
    by (auto simp: retained_def filter_empty_conv)
qed

text \<open>
  C3. In AI-extract mode, when after the loop over the slides no slide has status
  \<open>done\<close> with an analysis (as when every analysis call fails), the \<open>try\<close> block of
  the finalizing step throws the no-slides-analyzed error without touching the state:
  the batch ends in \<open>ERROR\<close>, that error is the one logged, and no operation reaches
  the sink. Otherwise the deck is generated from the non-empty list of retained slides.
\<close>

theorem no_slides_analyzed:
  "(let updated = fst (analyzeLoop env 0 (currentSlides, st\<lparr>appState := ANALYZING_SLIDES\<rparr>));
        r = analyzeSlides env currentSlides st
    in (retained updated = [] \<longrightarrow>
          (\<forall>st'. finalize_try env updated st' = (Inl NoSlidesAnalyzed, st'))
          \<and> sink r = sink st \<and> appState r = ERROR
          \<and> last (console r) = ErrorGenerate NoSlidesAnalyzed)
       \<and> (retained updated \<noteq> [] \<longrightarrow>
            (\<forall>st'. finalize_try env updated st' = generatePptx env (retained updated) st')
            \<and> sink r = sink st @ NewPresentation ''Converted Presentation''
                          # concat (map (slide_ops env) (retained updated))
                          @ [WriteFile ''Converted_Presentation_''])
       \<and> ((\<forall>i < length currentSlides.
              \<exists>err. analyzeSlideImage env i (originalImage (currentSlides ! i)) = Inl err)
            \<longrightarrow> retained updated = []))"
proof -
  let ?loop = "analyzeLoop env 0 (currentSlides, st\<lparr>appState := ANALYZING_SLIDES\<rparr>)"
  note f = analyzeSlides_fields [of env currentSlides st]
  have a: "retained (fst ?loop) = [] \<longrightarrow>
          (\<forall>st'. finalize_try env (fst ?loop) st' = (Inl NoSlidesAnalyzed, st'))
          \<and> sink (analyzeSlides env currentSlides st) = sink st
          \<and> appState (analyzeSlides env currentSlides st) = ERROR
          \<and> last (console (analyzeSlides env currentSlides st)) = ErrorGenerate NoSlidesAnalyzed"
    using f(1,2,6) by (simp add: finalize_try_empty)
  have b: "retained (fst ?loop) \<noteq> [] \<longrightarrow>
            (\<forall>st'. finalize_try env (fst ?loop) st' = generatePptx env (retained (fst ?loop)) st')
            \<and> sink (analyzeSlides env currentSlides st)
                = sink st @ NewPresentation ''Converted Presentation''
                          # concat (map (slide_ops env) (retained (fst ?loop)))
                          @ [WriteFile ''Converted_Presentation_'']"
    using f(1) by (simp add: finalize_try_nonempty)
  have c: "(\<forall>i < length currentSlides.
              \<exists>err. analyzeSlideImage env i (originalImage (currentSlides ! i)) = Inl err)
            \<longrightarrow> retained (fst ?loop) = []"
    using retained_all_failed [of currentSlides env] by blast
  show ?thesis
    unfolding Let_def using a b c by (intro conjI) assumption+
qed

theorem no_slides_analyzed_witness:
  "retained (fst (analyzeLoop demo_failing_world 0
                    (demo_pending, initial_state\<lparr>appState := ANALYZING_SLIDES\<rparr>))) = [] \<and>
   finalize_try demo_failing_world
     (fst (analyzeLoop demo_failing_world 0
             (demo_pending, initial_state\<lparr>appState := ANALYZING_SLIDES\<rparr>)))
     initial_state = (Inl NoSlidesAnalyzed, initial_state) \<and>
   sink (analyzeSlides demo_failing_world demo_pending initial_state) = [] \<and>
   appState (analyzeSlides demo_failing_world demo_pending initial_state) = ERROR \<and>
   last (console (analyzeSlides demo_failing_world demo_pending initial_state))
     = ErrorGenerate NoSlidesAnalyzed"
proof -
  have none: "retained (fst (analyzeLoop demo_failing_world 0
                    (demo_pending, initial_state\<lparr>appState := ANALYZING_SLIDES\<rparr>))) = []"
    by (simp add: analyzeLoop_closed demo_pending_def demo_failing_world_def demo_world_def
          analyzed_def analyzeSlideImage_def retained_def)
  note fails = no_slides_analyzed [of demo_failing_world demo_pending initial_state,
      unfolded Let_def, THEN conjunct1, rule_format, OF none]
  from fails have "finalize_try demo_failing_world
     (fst (analyzeLoop demo_failing_world 0
             (demo_pending, initial_state\<lparr>appState := ANALYZING_SLIDES\<rparr>)))
     initial_state = (Inl NoSlidesAnalyzed, initial_state)"
    by blast
  then show ?thesis
    using none fails by simp
qed

section \<open>Order of the slides\<close>

lemma filter_AddSlide_slide_ops:
  assumes "analysis item = Some sd"
  shows "filter (\<lambda>op. op = AddSlide) (slide_ops env item) = [AddSlide]"
proof -
  define fops where
    "fops = concat (map (figure_ops env (originalImage item))
                     (case figures sd of None \<Rightarrow> [] | Some figs \<Rightarrow> figs))"
  have parts: "slide_ops env item =
                 AddSlide # background_ops sd @ title_ops sd @ content_ops sd @ fops @ notes_ops sd"
    using slide_ops_parts [OF assms] by (simp add: fops_def)
  have img: "\<exists>io. op = AddImage io" if "op \<in> set fops" for op
    using that figure_ops_images unfolding fops_def by fastforce
  have f: "filter (\<lambda>op. op = AddSlide) fops = []"
    using img by (auto simp: filter_empty_conv)
  have b: "filter (\<lambda>op. op = AddSlide) (background_ops sd) = []"
    by (simp add: background_ops_eq split: option.splits)
  have n: "filter (\<lambda>op. op = AddSlide) (notes_ops sd) = []"
    by (simp add: notes_ops_eq split: option.splits)
  have t: "filter (\<lambda>op. op = AddSlide) (title_ops sd) = []"
    by (simp add: title_ops_def addTitle_def emit_def)
  have c: "filter (\<lambda>op. op = AddSlide) (content_ops sd) = []"
    by (simp add: content_ops_def addContent_def emit_def Let_def)
  show ?thesis
    unfolding parts by (simp add: f b n t c)
qed

lemma count_AddSlide_deck:
  "\<forall>s \<in> set items. analysis s \<noteq> None \<Longrightarrow>
     length (filter (\<lambda>op. op = AddSlide) (concat (map (slide_ops env) items))) = length items"
proof (induction items)
  case Nil
  then show ?case by simp
next
  case (Cons item items)
  then obtain sd where "analysis item = Some sd" by auto
  then show ?case
    using Cons filter_AddSlide_slide_ops [of item sd env] by simp
qed

lemma retained_analysis: "s \<in> set (retained ss) \<Longrightarrow> analysis s \<noteq> None"
  by (simp add: retained_def)

lemma handleFileAccepted_ai:
  fixes st :: state
  assumes "pdf_pages env = Inr pages"
  shows "handleFileAccepted env AI_EXTRACT st =
           analyzeSlides env
             (map (\<lambda>img. \<lparr>originalImage = img, analysis = None, status = Pending\<rparr>) pages)
             (st\<lparr>appState := PROCESSING_PDF, error := None,
                 slides := map (\<lambda>img. \<lparr>originalImage = img, analysis = None,
                                          status = Pending\<rparr>) pages,
                 progress_current := 0, progress_total := length pages\<rparr>)"
  using assms by (simp add: handleFileAccepted_def Let_def)

lemma handleFileAccepted_image:
  fixes st :: state
  assumes "pdf_pages env = Inr pages"
  shows "handleFileAccepted env IMAGE_ONLY st =
           createSimplePptx env
             (map (\<lambda>img. \<lparr>originalImage = img, analysis = None, status = Pending\<rparr>) pages)
             (st\<lparr>appState := PROCESSING_PDF, error := None,
                 slides := map (\<lambda>img. \<lparr>originalImage = img, analysis = None,
                                          status = Pending\<rparr>) pages,
                 progress_current := 0, progress_total := length pages\<rparr>)"
  using assms by (simp add: handleFileAccepted_def Let_def)

lemma imageSlides_fields:
  "appState (imageSlides ss st) = appState st
   \<and> error (imageSlides ss st) = error st
   \<and> console (imageSlides ss st) = console st
   \<and> slides (imageSlides ss st) = slides st"
  by (induction ss arbitrary: st) (simp_all add: emit_def)

lemma sink_imageSlides:
  "sink (imageSlides ss st) =
     sink st @ concat (map (\<lambda>s. [AddSlide,
                                   AddImage \<lparr>img_data = Original (originalImage s),
                                             img_x = Inches 0, img_y = Inches 0,
                                             img_w = Percent 100, img_h = Percent 100\<rparr>]) ss)"
  by (induction ss arbitrary: st) (simp_all add: emit_def)

lemma createSimplePptx_slides:
  "slides (createSimplePptx env ss st) = map (\<lambda>s. s\<lparr>status := Done\<rparr>) ss"
  by (simp add: createSimplePptx_def generation_outcome_fields generateImagePptx_def
      writeFile_def emit_def imageSlides_fields Let_def)

lemma createSimplePptx_sink:
  "sink (createSimplePptx env ss st) =
     sink st @ NewPresentation ''Converted Presentation (Image Mode)''
       # concat (map (\<lambda>s. [AddSlide,
                              AddImage \<lparr>img_data = Original (originalImage s),
                                        img_x = Inches 0, img_y = Inches 0,
                                        img_w = Percent 100, img_h = Percent 100\<rparr>]) ss)
       @ [WriteFile ''Converted_Presentation_Img_'']"
  by (simp add: createSimplePptx_def generation_outcome_fields generateImagePptx_def
      writeFile_def emit_def sink_imageSlides Let_def comp_def)

text \<open>
  C2. For a document of N pages, in either mode, the slides of the batch are N and
  slide i holds the image of page i. In AI-extract mode slide i also holds the result
  of the analysis call made for page i (\<open>done\<close> with the analysis, or \<open>error\<close> with
  none), and all N slides are processed whatever fails; the deck sent to the sink
  consists of the operations of the retained slides (status \<open>done\<close>, analysis present),
  one new slide each, in the order of the pages, and a slide with status \<open>error\<close> or
  no analysis is not among them. In image-copy mode every slide is \<open>done\<close> without
  analysis and the deck has one full-size image slide per page, in the order of the pages.
\<close>

theorem order_preserved:
  assumes "pdf_pages env = Inr pages"
  shows "(let r = handleFileAccepted env mode st
          in length (slides r) = length pages
             \<and> (\<forall>i < length pages.
                   originalImage (slides r ! i) = pages ! i
                   \<and> (if mode = AI_EXTRACT then
                        (case analyzeSlideImage env i (pages ! i) of
                           Inr a \<Rightarrow> analysis (slides r ! i) = Some a
                                    \<and> status (slides r ! i) = Done
                         | Inl err \<Rightarrow> analysis (slides r ! i) = None
                                      \<and> status (slides r ! i) = Error)
                      else analysis (slides r ! i) = None \<and> status (slides r ! i) = Done))
             \<and> (mode = AI_EXTRACT \<longrightarrow>
                  progress_current r = length pages
                  \<and> sink r = sink st @
                       (if retained (slides r) = [] then []
                        else NewPresentation ''Converted Presentation''
                             # concat (map (slide_ops env) (retained (slides r)))
                             @ [WriteFile ''Converted_Presentation_''])
                  \<and> length (filter (\<lambda>op. op = AddSlide)
                              (concat (map (slide_ops env) (retained (slides r)))))
                      = length (retained (slides r))
                  \<and> retained (slides r)
                      = filter (\<lambda>s. status s = Done \<and> analysis s \<noteq> None) (slides r)
                  \<and> (\<forall>s \<in> set (slides r). status s = Error \<or> analysis s = None
                                               \<longrightarrow> s \<notin> set (retained (slides r))))
             \<and> (mode = IMAGE_ONLY \<longrightarrow>
                  sink r = sink st @ NewPresentation ''Converted Presentation (Image Mode)''
                    # concat (map (\<lambda>img. [AddSlide,
                                             AddImage \<lparr>img_data = Original img,
                                                       img_x = Inches 0, img_y = Inches 0,
                                                       img_w = Percent 100,
                                                       img_h = Percent 100\<rparr>]) pages)
                    @ [WriteFile ''Converted_Presentation_Img_'']))"
proof (cases mode)
  case AI_EXTRACT
  let ?init = "map (\<lambda>img. \<lparr>originalImage = img, analysis = None, status = Pending\<rparr>) pages"
  let ?st2 = "st\<lparr>appState := PROCESSING_PDF, error := None, slides := ?init,
                 progress_current := 0, progress_total := length pages\<rparr>"
  let ?loop = "analyzeLoop env 0 (?init, ?st2\<lparr>appState := ANALYZING_SLIDES\<rparr>)"
  let ?r = "handleFileAccepted env AI_EXTRACT st"
  have r: "?r = analyzeSlides env ?init ?st2"
    by (rule handleFileAccepted_ai [OF assms])
  note f = analyzeSlides_fields [of env ?init ?st2]
  have sl: "slides ?r = fst ?loop"
  proof (cases "pages = []")
    case True
    then show ?thesis
      unfolding r f(4) by (simp add: analyzeLoop_done)
  next
    case False
    then show ?thesis unfolding r f(4) by simp
  qed
  have len: "length (slides ?r) = length pages"
    unfolding sl by (simp add: length_analyzeLoop)
  have nth: "originalImage (slides ?r ! i) = pages ! i
             \<and> (case analyzeSlideImage env i (pages ! i) of
                  Inr a \<Rightarrow> analysis (slides ?r ! i) = Some a \<and> status (slides ?r ! i) = Done
                | Inl err \<Rightarrow> analysis (slides ?r ! i) = None \<and> status (slides ?r ! i) = Error)"
    if "i < length pages" for i
    unfolding sl using that nth_analyzeLoop [of i "(?init, ?st2\<lparr>appState := ANALYZING_SLIDES\<rparr>)" env 0]
    by (simp add: analyzed_def split: sum.splits)
  have pc: "progress_current ?r = length pages"
    unfolding r f(5) by simp
  have sk: "sink ?r = sink st @
                  (if retained (slides ?r) = [] then []
                   else NewPresentation ''Converted Presentation''
                        # concat (map (slide_ops env) (retained (slides ?r)))
                        @ [WriteFile ''Converted_Presentation_''])"
    unfolding sl unfolding r f(1) by simp
  have cnt: "length (filter (\<lambda>op. op = AddSlide)
                         (concat (map (slide_ops env) (retained (slides ?r)))))
                 = length (retained (slides ?r))"
    by (rule count_AddSlide_deck) (simp add: retained_analysis)
  have rt: "retained (slides ?r)
              = filter (\<lambda>s. status s = Done \<and> analysis s \<noteq> None) (slides ?r)"
    by (simp add: retained_def)
  have nr: "\<forall>s \<in> set (slides ?r). status s = Error \<or> analysis s = None
                                    \<longrightarrow> s \<notin> set (retained (slides ?r))"
    by (auto simp: retained_def)
  have nth': "\<forall>i < length pages.
                originalImage (slides ?r ! i) = pages ! i
                \<and> (case analyzeSlideImage env i (pages ! i) of
                     Inr a \<Rightarrow> analysis (slides ?r ! i) = Some a \<and> status (slides ?r ! i) = Done
                   | Inl err \<Rightarrow> analysis (slides ?r ! i) = None
                                \<and> status (slides ?r ! i) = Error)"
    using nth by blast
  show ?thesis
    unfolding Let_def AI_EXTRACT using len nth' pc sk cnt rt nr
    by (simp only: if_True simp_thms ConversionMode.distinct)
next
  case IMAGE_ONLY
  let ?init = "map (\<lambda>img. \<lparr>originalImage = img, analysis = None, status = Pending\<rparr>) pages"
  let ?r = "handleFileAccepted env IMAGE_ONLY st"
  have sl: "slides ?r = map (\<lambda>img. \<lparr>originalImage = img, analysis = None, status = Done\<rparr>) pages"
    unfolding handleFileAccepted_image [OF assms] createSimplePptx_slides by simp
  have sk: "sink ?r = sink st @ NewPresentation ''Converted Presentation (Image Mode)''
                    # concat (map (\<lambda>img. [AddSlide,
                                             AddImage \<lparr>img_data = Original img,
                                                       img_x = Inches 0, img_y = Inches 0,
                                                       img_w = Percent 100,
                                                       img_h = Percent 100\<rparr>]) pages)
                    @ [WriteFile ''Converted_Presentation_Img_'']"
    unfolding handleFileAccepted_image [OF assms] createSimplePptx_sink
    by (simp add: comp_def)
  show ?thesis
    unfolding Let_def IMAGE_ONLY using sk by (simp add: sl)
qed

theorem order_preserved_witness:
  "pdf_pages demo_world = Inr [''page1'', ''page2''] \<and>
   slides (handleFileAccepted demo_world AI_EXTRACT initial_state) =
     [\<lparr>originalImage = ''page1'', analysis = Some demo_analysis, status = Done\<rparr>,
      \<lparr>originalImage = ''page2'', analysis = None, status = Error\<rparr>] \<and>
   sink (handleFileAccepted demo_world AI_EXTRACT initial_state) =
     NewPresentation ''Converted Presentation'' # slide_ops demo_world demo_item
       @ [WriteFile ''Converted_Presentation_''] \<and>
   progress_current (handleFileAccepted demo_world AI_EXTRACT initial_state) = 2 \<and>
   length (slides (handleFileAccepted demo_world IMAGE_ONLY initial_state)) = 2 \<and>
   originalImage (slides (handleFileAccepted demo_world IMAGE_ONLY initial_state) ! 1) = ''page2'' \<and>
   sink (handleFileAccepted demo_world IMAGE_ONLY initial_state) =
     [NewPresentation ''Converted Presentation (Image Mode)'',
      AddSlide,
      AddImage \<lparr>img_data = Original ''page1'', img_x = Inches 0, img_y = Inches 0,
                 img_w = Percent 100, img_h = Percent 100\<rparr>,
      AddSlide,
      AddImage \<lparr>img_data = Original ''page2'', img_x = Inches 0, img_y = Inches 0,
                 img_w = Percent 100, img_h = Percent 100\<rparr>,
      WriteFile ''Converted_Presentation_Img_'']"
proof -
  have p: "pdf_pages demo_world = Inr [''page1'', ''page2'']"
    by (simp add: demo_world_def)
  have sl: "slides (handleFileAccepted demo_world AI_EXTRACT initial_state) =
     [\<lparr>originalImage = ''page1'', analysis = Some demo_analysis, status = Done\<rparr>,
      \<lparr>originalImage = ''page2'', analysis = None, status = Error\<rparr>]"
    unfolding handleFileAccepted_ai [OF p] analyzeSlides_fields(4)
    by (simp add: analyzeLoop_closed analyzed_def analyzeSlideImage_def demo_world_def)
  note ai = order_preserved [OF p, of AI_EXTRACT initial_state, unfolded Let_def]
  note im = order_preserved [OF p, of IMAGE_ONLY initial_state, unfolded Let_def]
  from ai have pc: "progress_current (handleFileAccepted demo_world AI_EXTRACT initial_state)
                     = length [''page1'', ''page2'']"
    by blast
  from ai have "sink (handleFileAccepted demo_world AI_EXTRACT initial_state) =
     sink initial_state @
       (if retained (slides (handleFileAccepted demo_world AI_EXTRACT initial_state)) = [] then []
        else NewPresentation ''Converted Presentation''
             # concat (map (slide_ops demo_world)
                       (retained (slides (handleFileAccepted demo_world AI_EXTRACT initial_state))))
             @ [WriteFile ''Converted_Presentation_''])"
    by blast
  then have sk: "sink (handleFileAccepted demo_world AI_EXTRACT initial_state) =
     NewPresentation ''Converted Presentation'' # slide_ops demo_world demo_item
       @ [WriteFile ''Converted_Presentation_'']"
    unfolding sl by (simp add: retained_def demo_item_def)
  from im have len: "length (slides (handleFileAccepted demo_world IMAGE_ONLY initial_state))
                       = length [''page1'', ''page2'']"
    by blast
  from im have "(1::nat) < length [''page1'', ''page2''] \<longrightarrow>
      originalImage (slides (handleFileAccepted demo_world IMAGE_ONLY initial_state) ! 1)
        = [''page1'', ''page2''] ! 1"
    by blast
  then have one: "originalImage (slides (handleFileAccepted demo_world IMAGE_ONLY initial_state) ! 1)
                    = ''page2''"
    by simp
  from im have "sink (handleFileAccepted demo_world IMAGE_ONLY initial_state) =
      sink initial_state @ NewPresentation ''Converted Presentation (Image Mode)''
        # concat (map (\<lambda>img. [AddSlide,
                                 AddImage \<lparr>img_data = Original img,
                                           img_x = Inches 0, img_y = Inches 0,
                                           img_w = Percent 100, img_h = Percent 100\<rparr>])
                    [''page1'', ''page2''])
        @ [WriteFile ''Converted_Presentation_Img_'']"
    by blast
  then have ski: "sink (handleFileAccepted demo_world IMAGE_ONLY initial_state) =
     [NewPresentation ''Converted Presentation (Image Mode)'',
      AddSlide,
      AddImage \<lparr>img_data = Original ''page1'', img_x = Inches 0, img_y = Inches 0,
                 img_w = Percent 100, img_h = Percent 100\<rparr>,
      AddSlide,
      AddImage \<lparr>img_data = Original ''page2'', img_x = Inches 0, img_y = Inches 0,
                 img_w = Percent 100, img_h = Percent 100\<rparr>,
      WriteFile ''Converted_Presentation_Img_'']"
    by simp
  show ?thesis
    using p sl sk pc len one ski by simp
qed

section \<open>Terminal states\<close>

lemma createSimplePptx_fields:
  "appState (createSimplePptx env ss st) = (if write_ok env then COMPLETED else ERROR)"
  "error (createSimplePptx env ss st) =
     (if write_ok env then error st else Some ''Failed to generate PowerPoint file.'')"
  "console (createSimplePptx env ss st) =
     (if write_ok env then console st else console st @ [ErrorGenerate SinkWriteError])"
  "last (sink (createSimplePptx env ss st)) = WriteFile ''Converted_Presentation_Img_''"
  by (simp_all add: createSimplePptx_def generation_outcome_fields generateImagePptx_def
      writeFile_def emit_def imageSlides_fields Let_def)

lemma handleFileAccepted_unreadable:
  "pdf_pages env = Inl err \<Longrightarrow>
     handleFileAccepted env mode st =
       (log_console (ErrorPdf err) (st\<lparr>appState := PROCESSING_PDF, error := None\<rparr>))
         \<lparr>error := Some ''Failed to process PDF. Please try a simpler file.'',
          appState := ERROR\<rparr>"
  by (simp add: handleFileAccepted_def Let_def)

lemma ai_outcome:
  fixes st :: state
  assumes p: "pdf_pages env = Inr pages"
  defines "r \<equiv> handleFileAccepted env AI_EXTRACT st"
  shows "retained (slides r) = [] \<Longrightarrow>
           appState r = ERROR \<and> error r = Some ''Failed to generate PowerPoint file.''
           \<and> last (console r) = ErrorGenerate NoSlidesAnalyzed \<and> sink r = sink st"
    and "retained (slides r) \<noteq> [] \<Longrightarrow>
           last (sink r) = WriteFile ''Converted_Presentation_''
           \<and> (if write_ok env then appState r = COMPLETED \<and> error r = None
              else appState r = ERROR \<and> error r = Some ''Failed to generate PowerPoint file.''
                   \<and> last (console r) = ErrorGenerate SinkWriteError)"
    and "pages = [] \<Longrightarrow> retained (slides r) = []"
proof -
  let ?init = "map (\<lambda>img. \<lparr>originalImage = img, analysis = None, status = Pending\<rparr>) pages"
  let ?st2 = "st\<lparr>appState := PROCESSING_PDF, error := None, slides := ?init,
                 progress_current := 0, progress_total := length pages\<rparr>"
  let ?loop = "analyzeLoop env 0 (?init, ?st2\<lparr>appState := ANALYZING_SLIDES\<rparr>)"
  have r: "r = analyzeSlides env ?init ?st2"
    unfolding r_def by (rule handleFileAccepted_ai [OF p])
  note f = analyzeSlides_fields [of env ?init ?st2]
  have sl: "slides r = fst ?loop"
  proof (cases "pages = []")
    case True
    then show ?thesis
      unfolding r f(4) by (simp add: analyzeLoop_done)
  next
    case False
    then show ?thesis unfolding r f(4) by simp
  qed
  show "appState r = ERROR \<and> error r = Some ''Failed to generate PowerPoint file.''
           \<and> last (console r) = ErrorGenerate NoSlidesAnalyzed \<and> sink r = sink st"
    if "retained (slides r) = []"
    using that f(6) unfolding sl unfolding r f(1) f(2) f(3) by simp
  show "last (sink r) = WriteFile ''Converted_Presentation_''
           \<and> (if write_ok env then appState r = COMPLETED \<and> error r = None
              else appState r = ERROR \<and> error r = Some ''Failed to generate PowerPoint file.''
                   \<and> last (console r) = ErrorGenerate SinkWriteError)"
    if "retained (slides r) \<noteq> []"
    using that f(7) unfolding sl unfolding r f(1) f(2) f(3) by simp
  show "retained (slides r) = []" if "pages = []"
    using that unfolding sl by (simp add: analyzeLoop_done retained_def)
qed

text \<open>
  C8 as the claim states it fails. A batch whose analysis calls all fail and a batch
  whose file write fails both end in \<open>ERROR\<close> with the same reason, "Failed to generate
  PowerPoint file."; only the logged errors differ. And in image-copy mode a document
  with no page is written as an empty deck and the batch ends in \<open>COMPLETED\<close>.
\<close>

theorem failure_reason_counterexample:
  "appState (handleFileAccepted demo_failing_world AI_EXTRACT initial_state) = ERROR \<and>
   last (console (handleFileAccepted demo_failing_world AI_EXTRACT initial_state))
     = ErrorGenerate NoSlidesAnalyzed \<and>
   appState (handleFileAccepted (demo_world\<lparr>write_ok := False\<rparr>) AI_EXTRACT initial_state)
     = ERROR \<and>
   last (console (handleFileAccepted (demo_world\<lparr>write_ok := False\<rparr>) AI_EXTRACT initial_state))
     = ErrorGenerate SinkWriteError \<and>
   error (handleFileAccepted demo_failing_world AI_EXTRACT initial_state)
     = Some ''Failed to generate PowerPoint file.'' \<and>
   error (handleFileAccepted (demo_world\<lparr>write_ok := False\<rparr>) AI_EXTRACT initial_state)
     = Some ''Failed to generate PowerPoint file.'' \<and>
   appState (handleFileAccepted (demo_world\<lparr>pdf_pages := Inr []\<rparr>) IMAGE_ONLY initial_state)
     = COMPLETED"
proof -
  have pa: "pdf_pages demo_failing_world = Inr [''page1'', ''page2'']"
    by (simp add: demo_failing_world_def demo_world_def)
  have pb: "pdf_pages (demo_world\<lparr>write_ok := False\<rparr>) = Inr [''page1'', ''page2'']"
    by (simp add: demo_world_def)
  have pc: "pdf_pages (demo_world\<lparr>pdf_pages := Inr []\<rparr>) = Inr []"
    by simp
  have ra: "retained (slides (handleFileAccepted demo_failing_world AI_EXTRACT initial_state)) = []"
    unfolding handleFileAccepted_ai [OF pa] analyzeSlides_fields(4)
    by (simp add: analyzeLoop_closed analyzed_def analyzeSlideImage_def demo_failing_world_def
          demo_world_def retained_def)
  have rb: "retained (slides (handleFileAccepted (demo_world\<lparr>write_ok := False\<rparr>) AI_EXTRACT
                                initial_state)) \<noteq> []"
    unfolding handleFileAccepted_ai [OF pb] analyzeSlides_fields(4)
    by (simp add: analyzeLoop_closed analyzed_def analyzeSlideImage_def demo_world_def
          retained_def)
  have wb: "\<not> write_ok (demo_world\<lparr>write_ok := False\<rparr>)"
    by simp
  have wc: "write_ok (demo_world\<lparr>pdf_pages := Inr []\<rparr>)"
    by (simp add: demo_world_def)
  show ?thesis
    using ai_outcome(1) [OF pa ra] ai_outcome(2) [OF pb rb]
      wb wc
    by (simp add: handleFileAccepted_image [OF pc] createSimplePptx_fields)
qed

text \<open>
  C8, amended. The batch ends in \<open>COMPLETED\<close> exactly when the file write was made and
  succeeded, and in \<open>ERROR\<close> otherwise: when the document could not be read, when in
  AI-extract mode no slide was retained (which includes a document with no page), or
  when the write threw. The reason reported distinguishes a document that could not be
  read ("Failed to process PDF. Please try a simpler file.") from a failed generation
  ("Failed to generate PowerPoint file."); within the latter, no slides analyzed and a
  failed write are told apart by the logged error only. In image-copy mode a document
  with no page is not a failure by itself: the outcome is that of the write.
\<close>

theorem batch_outcome:
  "(let r = handleFileAccepted env mode st
    in (appState r = COMPLETED \<or> appState r = ERROR)
       \<and> (appState r = COMPLETED \<longleftrightarrow>
            write_ok env \<and> (\<exists>pages. pdf_pages env = Inr pages)
            \<and> \<not> (mode = AI_EXTRACT \<and> retained (slides r) = []))
       \<and> (case pdf_pages env of
            Inl err \<Rightarrow>
              appState r = ERROR
              \<and> error r = Some ''Failed to process PDF. Please try a simpler file.''
              \<and> last (console r) = ErrorPdf err \<and> sink r = sink st
          | Inr pages \<Rightarrow>
              (pages = [] \<and> mode = AI_EXTRACT \<longrightarrow> retained (slides r) = [])
              \<and> (if mode = AI_EXTRACT \<and> retained (slides r) = [] then
                    appState r = ERROR \<and> error r = Some ''Failed to generate PowerPoint file.''
                    \<and> last (console r) = ErrorGenerate NoSlidesAnalyzed \<and> sink r = sink st
                  else
                    last (sink r) = WriteFile (if mode = AI_EXTRACT then ''Converted_Presentation_''
                                               else ''Converted_Presentation_Img_'')
                    \<and> (if write_ok env then appState r = COMPLETED \<and> error r = None
                        else appState r = ERROR
                             \<and> error r = Some ''Failed to generate PowerPoint file.''
                             \<and> last (console r) = ErrorGenerate SinkWriteError))))"
proof (cases "pdf_pages env")
  case (Inl err)
  then show ?thesis
    by (simp add: handleFileAccepted_unreadable log_console_def)
next
  case (Inr pages)
  show ?thesis
  proof (cases mode)
    case AI_EXTRACT
    show ?thesis
    proof (cases "retained (slides (handleFileAccepted env AI_EXTRACT st)) = []")
      case True
      then show ?thesis
        using ai_outcome(1) [OF Inr True] by (simp add: Inr AI_EXTRACT)
    next
      case False
      then show ?thesis
        using ai_outcome(2) [OF Inr False] ai_outcome(3) [OF Inr, of st]
        by (cases "write_ok env") (auto simp: Inr AI_EXTRACT)
    qed
  next
    case IMAGE_ONLY
    then show ?thesis
      by (simp add: Inr handleFileAccepted_image [OF Inr] createSimplePptx_fields)
  qed
qed

theorem batch_outcome_witness:
  "pdf_pages demo_world = Inr [''page1'', ''page2''] \<and> write_ok demo_world \<and>
   retained (slides (handleFileAccepted demo_world AI_EXTRACT initial_state)) \<noteq> [] \<and>
   appState (handleFileAccepted demo_world AI_EXTRACT initial_state) = COMPLETED \<and>
   error (handleFileAccepted demo_world AI_EXTRACT initial_state) = None \<and>
   pdf_pages (demo_world\<lparr>pdf_pages := Inl PdfUnreadable\<rparr>) = Inl PdfUnreadable \<and>
   appState (handleFileAccepted (demo_world\<lparr>pdf_pages := Inl PdfUnreadable\<rparr>) AI_EXTRACT
               initial_state) = ERROR \<and>
   error (handleFileAccepted (demo_world\<lparr>pdf_pages := Inl PdfUnreadable\<rparr>) AI_EXTRACT
            initial_state) = Some ''Failed to process PDF. Please try a simpler file.''"
proof -
  have p: "pdf_pages demo_world = Inr [''page1'', ''page2'']" and w: "write_ok demo_world"
    by (simp_all add: demo_world_def)
  have q: "pdf_pages (demo_world\<lparr>pdf_pages := Inl PdfUnreadable\<rparr>) = Inl PdfUnreadable"
    by simp
  have rt: "retained (slides (handleFileAccepted demo_world AI_EXTRACT initial_state)) \<noteq> []"
    unfolding handleFileAccepted_ai [OF p] analyzeSlides_fields(4)
    by (simp add: analyzeLoop_closed analyzed_def analyzeSlideImage_def demo_world_def
          retained_def)
  note completed = batch_outcome [of demo_world AI_EXTRACT initial_state, unfolded Let_def]
  note failed = batch_outcome [of "demo_world\<lparr>pdf_pages := Inl PdfUnreadable\<rparr>" AI_EXTRACT
      initial_state, unfolded Let_def]
  from completed have "appState (handleFileAccepted demo_world AI_EXTRACT initial_state) = COMPLETED
                  \<and> error (handleFileAccepted demo_world AI_EXTRACT initial_state) = None"
    using rt by (simp add: p w)
  moreover from failed
  have "appState (handleFileAccepted (demo_world\<lparr>pdf_pages := Inl PdfUnreadable\<rparr>) AI_EXTRACT
                    initial_state) = ERROR
        \<and> error (handleFileAccepted (demo_world\<lparr>pdf_pages := Inl PdfUnreadable\<rparr>) AI_EXTRACT
                   initial_state) = Some ''Failed to process PDF. Please try a simpler file.''"
    by (simp add: q)
  ultimately show ?thesis
    using p w q rt by simp
qed


end
